theory Spec2Isabelle
  imports Main "HOL-Library.Word" "HOL-Library.Sublist"
begin

unbundle bit_operations_syntax

section \<open>The inode of internal/handles.go\<close>

text \<open>
  A shallow embedding of the inode operations of \<^verbatim>\<open>internal/handles.go\<close>.
  Go strings and byte slices are \<^typ>\<open>string\<close> (a list of 8-bit characters).
  A \<^verbatim>\<open>time.Time\<close> is an instant, counted in nanoseconds from Go's zero time
  (January 1, year 1 UTC), so \<^verbatim>\<open>IsZero\<close> is equality with 0 and
  \<^verbatim>\<open>Before\<close> is \<open><\<close>. Mutexes, condition variables and the debug log
  (\<^verbatim>\<open>logFuse\<close>) have no effect on the values below and are left out, as are
  the fields of \<^verbatim>\<open>Inode\<close> that no function modelled here reads or writes
  (buffers, read ranges, disk cache handle, flush errors, rename staging, multipart state).
\<close>

subsection \<open>Data\<close>

type_synonym time = int

datatype error =
  EPERM | ENOENT | EIO | EEXIST | ENOTDIR | EISDIR | ENOSYS | ENODATA
  | OtherError string
  | Panic

definition ST_CACHED :: "32 word" where "ST_CACHED = 0"
definition ST_CREATED :: "32 word" where "ST_CREATED = 1"
definition ST_MODIFIED :: "32 word" where "ST_MODIFIED = 2"
definition ST_DELETED :: "32 word" where "ST_DELETED = 3"

record InodeAttributes =
  Size :: "64 word"
  Mtime :: time
  Ctime :: time
  Uid :: "32 word"
  Gid :: "32 word"
  Rdev :: "32 word"
  Mode :: "32 word"

text \<open>The constants of Go's \<^verbatim>\<open>os.FileMode\<close> (a \<^verbatim>\<open>uint32\<close>).\<close>

definition ModeDir :: "32 word" where "ModeDir = push_bit 31 1"
definition ModeSymlink :: "32 word" where "ModeSymlink = push_bit 27 1"
definition ModeDevice :: "32 word" where "ModeDevice = push_bit 26 1"
definition ModeNamedPipe :: "32 word" where "ModeNamedPipe = push_bit 25 1"
definition ModeSocket :: "32 word" where "ModeSocket = push_bit 24 1"
definition ModeCharDevice :: "32 word" where "ModeCharDevice = push_bit 21 1"
definition ModeIrregular :: "32 word" where "ModeIrregular = push_bit 19 1"
definition ModeType :: "32 word" where
  "ModeType = ModeDir OR ModeSymlink OR ModeNamedPipe OR ModeSocket OR ModeDevice
     OR ModeCharDevice OR ModeIrregular"
text \<open>\<^verbatim>\<open>ModePerm = 0777\<close> (octal), that is 511.\<close>

definition ModePerm :: "32 word" where "ModePerm = 511"

text \<open>
  The flags of the filesystem that this file reads (\<^verbatim>\<open>fs.flags\<close>); the
  declaration of the flag structure is outside this file, the fields are the ones used here.
\<close>

record FlagStorage =
  flag_Uid :: "32 word"
  flag_Gid :: "32 word"
  FileMode :: "32 word"
  DirMode :: "32 word"
  EnableMtime :: bool
  EnablePerms :: bool
  EnableSpecials :: bool
  MtimeAttr :: string
  UidAttr :: string
  GidAttr :: string
  FileModeAttr :: string
  RdevAttr :: string
  SymlinkAttr :: string

text \<open>
  Calls that leave this file and act on the world are recorded, oldest first, in the
  filesystem's \<open>calls\<close>: the order of the list is the order of the calls.
\<close>

datatype event =
  Warnf_conflict
  | Call_resetCache
  | Call_ResizeUnlocked "64 word" bool bool
  | Call_SetCacheState "32 word"
  | Call_WakeupFlusher
  | Call_lfru_Forget "64 word"
  | Call_HeadBlob

text \<open>
  \<^verbatim>\<open>Goofys\<close>: the filesystem an inode points to. \<open>inodes\<close> is the key set of
  the table \<^verbatim>\<open>fs.inodes\<close> (the inode pointers stored under the keys are not
  read here). The type of \<^verbatim>\<open>forgotCnt\<close> is declared outside this file; it is a
  counter.
\<close>

record Goofys =
  flags :: FlagStorage
  rootAttrs :: InodeAttributes
  inodes :: "64 word set"
  forgotCnt :: nat
  calls :: "event list"

text \<open>
  A storage backend, as far as \<^verbatim>\<open>cloud()\<close> and the xattr functions look at it:
  which of the two special wrapper types it is, whether \<^verbatim>\<open>Init("")\<close> of an
  init wrapper fails, and the name its \<^verbatim>\<open>Capabilities()\<close> report.
\<close>

datatype StorageBackend =
  StorageBackendInitError (capName: string)
  | StorageBackendInitWrapper (initFails: bool) (capName: string)
  | OtherBackend (capName: string)

record DirInodeData =
  cloud_of :: "StorageBackend option"
  mountPrefix :: string

text \<open>
  The parent chain of an inode, nearest first: each ancestor is a directory, of which
  \<^verbatim>\<open>cloud()\<close> reads the name and the directory data. The last element is the
  root (its \<^verbatim>\<open>Parent\<close> is nil).
\<close>

record Ancestor =
  anc_Name :: string
  anc_dir :: DirInodeData

record Inode =
  Id :: "64 word"
  Name :: string
  fs :: Goofys
  Attributes :: InodeAttributes
  AttrTime :: time
  Parent :: "Ancestor list"
  dir :: "DirInodeData option"
  ImplicitDir :: bool
  CacheState :: "32 word"
  userMetadataDirty :: int
  userMetadata :: "(string \<rightharpoonup> string) option"
  s3Metadata :: "string \<rightharpoonup> string"
  knownSize :: "64 word"
  knownETag :: string
  refcnt :: "64 word"

text \<open>
  \<open>userMetadata\<close> is \<open>None\<close> for a nil map. \<open>s3Metadata\<close> is allocated by
  \<^verbatim>\<open>NewInode\<close> and never reassigned in this file, so it is never nil. The values
  stored in both maps are never nil slices (\<^verbatim>\<open>Dup\<close>, \<^verbatim>\<open>[]byte(s)\<close> and
  \<^verbatim>\<open>Sprintf\<close> results), so a lookup that is not nil is a key that is present.
\<close>

record BlobItemOutput =
  item_Key :: "string option"
  item_ETag :: "string option"
  item_LastModified :: "time option"
  item_Size :: "64 word"
  item_StorageClass :: "string option"
  item_Metadata :: "(string \<times> string) list option"

record HeadBlobOutput =
  head_ETag :: "string option"
  head_StorageClass :: "string option"
  head_Metadata :: "(string \<times> string) list option"

text \<open>
  A map that is ranged over (\<^verbatim>\<open>map[string]*string\<close> of the backend's answers)
  is the list of its entries in the order the loop visits them; \<open>None\<close> is the nil map,
  which a loop visits like the empty one.
\<close>

definition entries :: "'a list option \<Rightarrow> 'a list" where
  "entries m = (case m of None \<Rightarrow> [] | Some xs \<Rightarrow> xs)"

text \<open>
  Functions of libraries that this file calls and that are not part of it:
  \<^verbatim>\<open>strconv.ParseUint(s, base, bitSize)\<close> as the value it returns and whether
  its error is nil, and the two mode conversions of the FUSE library.
\<close>

record Library =
  ParseUint :: "string \<Rightarrow> nat \<Rightarrow> nat \<Rightarrow> nat \<times> bool"
  ConvertFileMode :: "32 word \<Rightarrow> 32 word"
  ConvertGolangMode :: "32 word \<Rightarrow> 32 word"

text \<open>\<^verbatim>\<open>time.Unix(sec, 0)\<close>: the Unix epoch is 62135596800 seconds after the zero time.\<close>

definition time_Unix :: "int \<Rightarrow> time" where
  "time_Unix sec = (sec + 62135596800) * 1000000000"

subsection \<open>Strings: lower case and URL unescaping\<close>

text \<open>
  \<^verbatim>\<open>strings.ToLower\<close> on a string of ASCII bytes: the letters A to Z are moved to
  a to z. (On bytes above 127 Go decodes UTF-8 runes; metadata keys are ASCII.)
\<close>

definition lower_char :: "char \<Rightarrow> char" where
  "lower_char c =
     (if 65 \<le> (of_char c :: nat) \<and> (of_char c :: nat) \<le> 90
      then char_of ((of_char c :: nat) + 32) else c)"

definition ToLower :: "string \<Rightarrow> string" where
  "ToLower s = map lower_char s"

definition ishex :: "char \<Rightarrow> bool" where
  "ishex c = (let n = (of_char c :: nat) in
     (48 \<le> n \<and> n \<le> 57) \<or> (97 \<le> n \<and> n \<le> 102) \<or> (65 \<le> n \<and> n \<le> 70))"

definition unhex :: "char \<Rightarrow> nat" where
  "unhex c = (let n = (of_char c :: nat) in
     if 48 \<le> n \<and> n \<le> 57 then n - 48
     else if 97 \<le> n \<and> n \<le> 102 then n - 97 + 10
     else if 65 \<le> n \<and> n \<le> 70 then n - 65 + 10
     else 0)"

text \<open>
  \<^verbatim>\<open>url.PathUnescape\<close> of Go's standard library: a \<open>%\<close> must be followed by two
  hexadecimal digits and stands for that byte, every other byte (also \<open>+\<close>) stands for
  itself; \<open>None\<close> is the escape error.
\<close>

fun PathUnescape :: "string \<Rightarrow> string option" where
  "PathUnescape [] = Some []"
| "PathUnescape (c # s) =
     (if c = CHR ''%'' then
        (case s of
           a # b # rest \<Rightarrow>
             if ishex a \<and> ishex b
             then map_option ((#) (char_of (unhex a * 16 + unhex b))) (PathUnescape rest)
             else None
         | _ \<Rightarrow> None)
      else map_option ((#) c) (PathUnescape s))"

subsection \<open>Metadata from the backend\<close>

definition unescape_step :: "string \<times> string \<Rightarrow> (string \<rightharpoonup> string) \<Rightarrow> (string \<rightharpoonup> string)" where
  "unescape_step kv unescaped =
     (case PathUnescape (ToLower (fst kv)) of
        None \<Rightarrow> unescaped
      | Some uk \<Rightarrow>
          (case PathUnescape (snd kv) of
             None \<Rightarrow> unescaped
           | Some uv \<Rightarrow> unescaped(uk \<mapsto> uv)))"

definition unescapeMetadata :: "(string \<times> string) list option \<Rightarrow> (string \<rightharpoonup> string)" where
  "unescapeMetadata meta = fold unescape_step (entries meta) Map.empty"

text \<open>
  \<^verbatim>\<open>setMetadata\<close> stores the unescaped map and then runs three blocks, each of
  which reads the flags \<open>fl\<close> and the unescaped map \<open>um\<close> and writes fields of
  \<^verbatim>\<open>inode.Attributes\<close> only: the modification time (lines 430 to 438), the owner
  and the group (lines 439 to 454) and the file mode with the device number (lines 455 to
  476). Each block is a function on the attributes.
\<close>

definition setMetadata_mtime ::
  "Library \<Rightarrow> FlagStorage \<Rightarrow> (string \<rightharpoonup> string) \<Rightarrow> InodeAttributes \<Rightarrow> InodeAttributes" where
  "setMetadata_mtime lib fl um attrs =
     (case um (MtimeAttr fl) of
        None \<Rightarrow> attrs
      | Some mtimeStr \<Rightarrow>
          (let (i, ok) = ParseUint lib mtimeStr 0 64 in
           if ok then attrs\<lparr>Mtime := time_Unix (sint (word_of_nat i :: 64 word))\<rparr>
           else attrs))"

definition setMetadata_uid ::
  "Library \<Rightarrow> FlagStorage \<Rightarrow> (string \<rightharpoonup> string) \<Rightarrow> InodeAttributes \<Rightarrow> InodeAttributes" where
  "setMetadata_uid lib fl um attrs =
     (case um (UidAttr fl) of
        None \<Rightarrow> attrs
      | Some uidStr \<Rightarrow>
          (let (i, ok) = ParseUint lib uidStr 0 32 in
           if ok then attrs\<lparr>Uid := word_of_nat i\<rparr> else attrs))"

definition setMetadata_gid ::
  "Library \<Rightarrow> FlagStorage \<Rightarrow> (string \<rightharpoonup> string) \<Rightarrow> InodeAttributes \<Rightarrow> InodeAttributes" where
  "setMetadata_gid lib fl um attrs =
     (case um (GidAttr fl) of
        None \<Rightarrow> attrs
      | Some gidStr \<Rightarrow>
          (let (i, ok) = ParseUint lib gidStr 0 32 in
           if ok then attrs\<lparr>Gid := word_of_nat i\<rparr> else attrs))"

definition setMetadata_mode ::
  "Library \<Rightarrow> FlagStorage \<Rightarrow> (string \<rightharpoonup> string) \<Rightarrow> InodeAttributes \<Rightarrow> InodeAttributes" where
  "setMetadata_mode lib fl um attrs =
     (case um (FileModeAttr fl) of
        None \<Rightarrow> attrs
      | Some modeStr \<Rightarrow>
          (let (i, ok) = ParseUint lib modeStr 0 32 in
           if ok then
             (let fm = ConvertFileMode lib (word_of_nat i);
                  mask = (if EnablePerms fl then ModePerm else 0);
                  mask = (if EnableSpecials fl \<and> (Mode attrs AND ModeType) = 0
                          then mask OR ModeType else mask);
                  rmMask = (ModePerm OR ModeType) XOR mask;
                  mode = (Mode attrs AND rmMask) OR (fm AND mask);
                  attrs = attrs\<lparr>Mode := mode\<rparr>
              in
                if (mode AND ModeDevice) \<noteq> 0 then
                  (let rdev = fst (ParseUint lib
                          (case um (RdevAttr fl) of None \<Rightarrow> [] | Some r \<Rightarrow> r) 0 32)
                   in attrs\<lparr>Rdev := word_of_nat rdev\<rparr>)
                else attrs)
           else attrs))"

definition setMetadata :: "Library \<Rightarrow> (string \<times> string) list option \<Rightarrow> Inode \<Rightarrow> Inode" where
  "setMetadata lib metadata inode =
    (let um = unescapeMetadata metadata;
         fl = flags (fs inode);
         attrs = Attributes inode;
         attrs = (if EnableMtime fl then setMetadata_mtime lib fl um attrs else attrs);
         attrs = (if EnablePerms fl
                  then setMetadata_gid lib fl um (setMetadata_uid lib fl um attrs) else attrs);
         attrs = (if EnablePerms fl \<or> EnableSpecials fl
                  then setMetadata_mode lib fl um attrs else attrs)
     in inode\<lparr>userMetadata := Some um, Attributes := attrs\<rparr>)"

subsection \<open>The cache engine, as this file calls it\<close>

text \<open>
  Modelled from the spec: \<^verbatim>\<open>resetCache\<close> is defined in another file. The
  specification says it releases all buffers, truncates the disk cache file, clears the
  multipart state and transitions the inode to CACHED. Buffers, disk cache and multipart
  state are not part of this model; the call is recorded and the cache state is set.
\<close>

definition resetCache :: "Inode \<Rightarrow> Inode" where
  "resetCache inode =
     inode\<lparr>CacheState := ST_CACHED,
            fs := (fs inode)\<lparr>calls := calls (fs inode) @ [Call_resetCache]\<rparr>\<rparr>"

text \<open>
  Modelled from the spec: \<^verbatim>\<open>ResizeUnlocked\<close> is defined in another file. The
  specification says it extends or truncates the buffer list to cover the bytes from 0 to
  the new size, the size the inode then has. The call is recorded with its three arguments
  and the size is stored.
\<close>

definition ResizeUnlocked :: "64 word \<Rightarrow> bool \<Rightarrow> bool \<Rightarrow> Inode \<Rightarrow> Inode" where
  "ResizeUnlocked newSize zeroFill finalizeFlushed inode =
     inode\<lparr>Attributes := (Attributes inode)\<lparr>Size := newSize\<rparr>,
            fs := (fs inode)\<lparr>calls := calls (fs inode)
                     @ [Call_ResizeUnlocked newSize zeroFill finalizeFlushed]\<rparr>\<rparr>"

text \<open>
  Modelled from the spec: \<^verbatim>\<open>SetCacheState\<close> is the dedicated setter of the cache
  state, defined in another file.
\<close>

definition SetCacheState :: "32 word \<Rightarrow> Inode \<Rightarrow> Inode" where
  "SetCacheState st inode =
     inode\<lparr>CacheState := st,
            fs := (fs inode)\<lparr>calls := calls (fs inode) @ [Call_SetCacheState st]\<rparr>\<rparr>"

definition record_call :: "event \<Rightarrow> Inode \<Rightarrow> Inode" where
  "record_call e inode = inode\<lparr>fs := (fs inode)\<lparr>calls := calls (fs inode) @ [e]\<rparr>\<rparr>"

subsection \<open>Remote reconciliation\<close>

text \<open>
  The condition of line 204, \<^verbatim>\<open>item.ETag != nil && inode.knownETag != *item.ETag
  || item.Size != inode.knownSize\<close>: in Go \<^verbatim>\<open>&&\<close> binds tighter than
  \<^verbatim>\<open>||\<close>.
\<close>

definition conflict :: "BlobItemOutput \<Rightarrow> Inode \<Rightarrow> bool" where
  "conflict item inode =
     ((case item_ETag item of None \<Rightarrow> False | Some e \<Rightarrow> knownETag inode \<noteq> e)
      \<or> item_Size item \<noteq> knownSize inode)"

text \<open>
  The body of the conditional, lines 205 to 223: the warning, the reset of the cache and
  the values taken from the item.
\<close>

definition SetFromBlobItem_drop :: "Library \<Rightarrow> BlobItemOutput \<Rightarrow> Inode \<Rightarrow> Inode" where
  "SetFromBlobItem_drop lib item inode0 =
     (let inode =
            (if CacheState inode0 \<noteq> ST_CACHED
                \<and> (knownETag inode0 \<noteq> [] \<or> knownSize inode0 > 0)
             then record_call Warnf_conflict inode0 else inode0);
          inode = resetCache inode;
          inode = ResizeUnlocked (item_Size item) False False inode;
          inode = inode\<lparr>knownSize := item_Size item\<rparr>;
          inode =
            (case item_LastModified item of
               Some lm \<Rightarrow> inode\<lparr>Attributes := (Attributes inode)\<lparr>Mtime := lm, Ctime := lm\<rparr>\<rparr>
             | None \<Rightarrow> inode\<lparr>Attributes := (Attributes inode)
                 \<lparr>Mtime := Ctime (rootAttrs (fs inode)),
                  Ctime := Ctime (rootAttrs (fs inode))\<rparr>\<rparr>)
      in
        (case item_Metadata item of
           Some md \<Rightarrow> (setMetadata lib (Some md) inode)\<lparr>userMetadataDirty := 0\<rparr>
         | None \<Rightarrow> inode))"

text \<open>Lines 225 to 230.\<close>

definition SetFromBlobItem_etag :: "BlobItemOutput \<Rightarrow> Inode \<Rightarrow> Inode" where
  "SetFromBlobItem_etag item inode =
     (case item_ETag item of
        Some e \<Rightarrow> inode\<lparr>s3Metadata := (s3Metadata inode)(''etag'' \<mapsto> e), knownETag := e\<rparr>
      | None \<Rightarrow> inode\<lparr>s3Metadata := (s3Metadata inode)(''etag'' := None)\<rparr>)"

text \<open>Lines 231 to 235.\<close>

definition SetFromBlobItem_storage_class :: "BlobItemOutput \<Rightarrow> Inode \<Rightarrow> Inode" where
  "SetFromBlobItem_storage_class item inode =
     (case item_StorageClass item of
        Some sc \<Rightarrow> inode\<lparr>s3Metadata := (s3Metadata inode)(''storage-class'' \<mapsto> sc)\<rparr>
      | None \<Rightarrow> inode\<lparr>s3Metadata := (s3Metadata inode)(''storage-class'' := None)\<rparr>)"

text \<open>
  Lines 236 to 240; \<open>now\<close> is the value of \<^verbatim>\<open>time.Now()\<close> read at line 236.
\<close>

definition SetFromBlobItem_attr_time :: "time \<Rightarrow> Inode \<Rightarrow> Inode" where
  "SetFromBlobItem_attr_time now inode =
     (if AttrTime inode < now then inode\<lparr>AttrTime := now\<rparr> else inode)"

definition SetFromBlobItem :: "Library \<Rightarrow> time \<Rightarrow> BlobItemOutput \<Rightarrow> Inode \<Rightarrow> Inode" where
  "SetFromBlobItem lib now item inode =
     SetFromBlobItem_attr_time now
       (SetFromBlobItem_storage_class item
         (SetFromBlobItem_etag item
           (if conflict item inode then SetFromBlobItem_drop lib item inode else inode)))"

subsection \<open>The backend of an inode\<close>

text \<open>
  The type tests of \<^verbatim>\<open>cloud()\<close>: the backend counts as failed when it is the
  error backend, or an init wrapper whose \<^verbatim>\<open>Init("")\<close> returns an error.
\<close>

definition isErr :: "StorageBackend \<Rightarrow> bool" where
  "isErr c = (case c of
       StorageBackendInitError _ \<Rightarrow> True
     | StorageBackendInitWrapper f _ \<Rightarrow> f
     | OtherBackend _ \<Rightarrow> False)"

text \<open>
  The loop of \<^verbatim>\<open>cloud()\<close> over the directory \<open>p\<close> and its parents, with the
  path built so far; it returns the backend found (or nil), the prefix and the path.
\<close>

fun cloud_walk :: "Ancestor list \<Rightarrow> string \<Rightarrow> StorageBackend option \<times> string \<times> string" where
  "cloud_walk [] path = (None, [], path)"
| "cloud_walk (p # ps) path =
     (case cloud_of (anc_dir p) of
        Some c \<Rightarrow> (Some c, (if \<not> isErr c then mountPrefix (anc_dir p) else []), path)
      | None \<Rightarrow>
          cloud_walk ps
            (if path = [] then anc_Name p
             else if ps \<noteq> [] then anc_Name p @ ''/'' @ path
             else path))"

definition TrimRight_slash :: "string \<Rightarrow> string" where
  "TrimRight_slash s = rev (dropWhile (\<lambda>c. c = CHR ''/'') (rev s))"

definition cloud :: "Inode \<Rightarrow> StorageBackend option \<times> string" where
  "cloud inode =
     (let (c, pfx, path) =
            (case dir inode of
               None \<Rightarrow> cloud_walk (Parent inode) (Name inode)
             | Some d \<Rightarrow> cloud_walk (\<lparr>anc_Name = Name inode, anc_dir = d\<rparr> # Parent inode) [])
      in (c, if path = [] then TrimRight_slash pfx else pfx @ path))"

definition isDir :: "Inode \<Rightarrow> bool" where
  "isDir inode = (dir inode \<noteq> None)"

subsection \<open>Attributes as FUSE sees them\<close>

record FuseInodeAttributes =
  fuse_Size :: "64 word"
  fuse_Nlink :: "32 word"
  fuse_Mode :: "32 word"
  fuse_Rdev :: "32 word"
  fuse_Atime :: time
  fuse_Mtime :: time
  fuse_Ctime :: time
  fuse_Crtime :: time
  fuse_Uid :: "32 word"
  fuse_Gid :: "32 word"

definition InflateAttributes :: "Inode \<Rightarrow> FuseInodeAttributes" where
  "InflateAttributes inode =
    (let mtime = (if Mtime (Attributes inode) = 0 then Mtime (rootAttrs (fs inode))
                  else Mtime (Attributes inode));
         attr = \<lparr>fuse_Size = Size (Attributes inode),
                 fuse_Nlink = 0,
                 fuse_Mode = Mode (Attributes inode),
                 fuse_Rdev = Rdev (Attributes inode),
                 fuse_Atime = Ctime (Attributes inode),
                 fuse_Mtime = mtime,
                 fuse_Ctime = Ctime (Attributes inode),
                 fuse_Crtime = mtime,
                 fuse_Uid = Uid (Attributes inode),
                 fuse_Gid = Gid (Attributes inode)\<rparr>
     in
       if dir inode \<noteq> None then
         attr\<lparr>fuse_Nlink := 2, fuse_Mode := (fuse_Mode attr AND ModePerm) OR ModeDir\<rparr>
       else if (case userMetadata inode of
                  None \<Rightarrow> False
                | Some um \<Rightarrow> um (SymlinkAttr (flags (fs inode))) \<noteq> None) then
         attr\<lparr>fuse_Nlink := 1, fuse_Mode := (fuse_Mode attr AND ModePerm) OR ModeSymlink\<rparr>
       else
         attr\<lparr>fuse_Nlink := 1\<rparr>)"

subsection \<open>Reference counting\<close>

text \<open>
  \<^verbatim>\<open>refcnt\<close> and \<open>n\<close> are \<^verbatim>\<open>int64\<close>: the subtraction wraps and the test
  \<^verbatim>\<open>res < 0\<close> reads the result as a signed number. The result is the returned
  \<^verbatim>\<open>stale\<close>, or \<open>Panic\<close>.
\<close>

definition DeRef :: "64 word \<Rightarrow> Inode \<Rightarrow> (error + bool) \<times> Inode" where
  "DeRef n inode0 =
    (let res = refcnt inode0 - n;
         inode = inode0\<lparr>refcnt := res\<rparr>
     in
       if sint res < 0 then (Inl Panic, inode)
       else if res = 0 \<and> CacheState inode = ST_CACHED then
         (let inode = resetCache inode;
              inode = inode\<lparr>fs := (fs inode)
                        \<lparr>inodes := inodes (fs inode) - {Id inode},
                         forgotCnt := forgotCnt (fs inode) + 1\<rparr>\<rparr>;
              inode = record_call (Call_lfru_Forget (Id inode)) inode
          in (Inr (res = 0), inode))
       else (Inr (res = 0), inode))"

subsection \<open>User metadata and the file mode\<close>

text \<open>\<open>value = None\<close> is the nil slice.\<close>

definition setUserMeta :: "string \<Rightarrow> string option \<Rightarrow> Inode \<Rightarrow> Inode" where
  "setUserMeta key val inode =
     (let um = (case userMetadata inode of None \<Rightarrow> Map.empty | Some m \<Rightarrow> m)
      in inode\<lparr>userMetadata := Some (um(key := val)), userMetadataDirty := 2\<rparr>)"

text \<open>\<^verbatim>\<open>fmt.Sprintf("%d", n)\<close> for an unsigned \<open>n\<close>.\<close>

definition digit_char :: "nat \<Rightarrow> char" where
  "digit_char d = char_of (48 + d)"

function decimal :: "nat \<Rightarrow> string" where
  "decimal n = (if n < 10 then [digit_char n] else decimal (n div 10) @ [digit_char (n mod 10)])"
  by pat_completeness auto
termination
  by (relation "measure id") auto

declare decimal.simps [simp del]

definition setFileMode :: "Library \<Rightarrow> 32 word \<Rightarrow> Inode \<Rightarrow> (error + bool) \<times> Inode" where
  "setFileMode lib newMode inode0 =
    (let prevMode = Mode (Attributes inode0);
         fl = flags (fs inode0)
     in
       if EnableSpecials fl \<and> (newMode AND ModeDir) \<noteq> (Mode (Attributes inode0) AND ModeDir) then
         (if (newMode AND ModeDir) \<noteq> 0 then (Inl ENOTDIR, inode0) else (Inl EISDIR, inode0))
       else
         (let inode =
                (if EnableSpecials fl then
                   inode0\<lparr>Attributes := (Attributes inode0)
                     \<lparr>Mode := (Mode (Attributes inode0) AND ModePerm) OR (newMode AND ModeType)\<rparr>\<rparr>
                 else inode0);
              inode =
                (if EnablePerms fl then
                   inode\<lparr>Attributes := (Attributes inode)
                     \<lparr>Mode := (Mode (Attributes inode) AND ModeType) OR (newMode AND ModePerm)\<rparr>\<rparr>
                 else inode);
              defaultMode =
                (if dir inode \<noteq> None then DirMode fl OR ModeDir else FileMode fl);
              inode =
                (if (Mode (Attributes inode) AND ModeDevice) \<noteq> 0 then
                   setUserMeta (RdevAttr fl) (Some (decimal (unat (Rdev (Attributes inode))))) inode
                 else inode);
              inode =
                (if Mode (Attributes inode) \<noteq> defaultMode then
                   setUserMeta (FileModeAttr fl)
                     (Some (decimal (unat (ConvertGolangMode lib (Mode (Attributes inode)))))) inode
                 else setUserMeta (FileModeAttr fl) None inode)
          in (Inr (prevMode \<noteq> Mode (Attributes inode)), inode)))"

subsection \<open>Extended attributes\<close>

definition fillXattrFromHead :: "Library \<Rightarrow> HeadBlobOutput \<Rightarrow> Inode \<Rightarrow> Inode" where
  "fillXattrFromHead lib resp inode0 =
    (let inode =
           (case head_ETag resp of
              Some e \<Rightarrow> inode0\<lparr>s3Metadata := (s3Metadata inode0)(''etag'' \<mapsto> e)\<rparr>
            | None \<Rightarrow> inode0);
         inode =
           (case head_StorageClass resp of
              Some sc \<Rightarrow> inode\<lparr>s3Metadata := (s3Metadata inode)(''storage-class'' \<mapsto> sc)\<rparr>
            | None \<Rightarrow> inode\<lparr>s3Metadata := (s3Metadata inode)(''storage-class'' \<mapsto> ''STANDARD'')\<rparr>)
     in setMetadata lib (head_Metadata resp) inode)"

text \<open>
  \<open>head\<close> is the answer of the backend to the HEAD request that \<^verbatim>\<open>fillXattr\<close>
  sends (at most one per call): the response, or the error after \<^verbatim>\<open>mapAwsError\<close>.
  The key of the request only selects the object asked for and is not modelled. Calling
  \<^verbatim>\<open>HeadBlob\<close> on a nil backend is a nil dereference. The result is the returned
  error (\<open>None\<close> for nil) and the inode.
\<close>

definition fillXattr :: "Library \<Rightarrow> error + HeadBlobOutput \<Rightarrow> Inode \<Rightarrow> error option \<times> Inode" where
  "fillXattr lib head inode =
    (if \<not> ImplicitDir inode \<and> userMetadata inode = None then
       (case fst (cloud inode) of
          None \<Rightarrow> (Some Panic, inode)
        | Some c \<Rightarrow>
            (let inode = record_call Call_HeadBlob inode in
             case head of
               Inl err \<Rightarrow>
                 if err = ENOENT then
                   (None, if isDir inode then inode\<lparr>ImplicitDir := True\<rparr> else inode)
                 else (Some err, inode)
             | Inr resp \<Rightarrow>
                 if userMetadata inode = None then (None, fillXattrFromHead lib resp inode)
                 else (None, inode)))
     else (None, inode))"

text \<open>
  The map that \<^verbatim>\<open>getXattrMap\<close> returns is one of the two maps of the inode, not a
  copy: a write through it is a write to the inode. The model returns which of the two.
\<close>

datatype xattr_map = S3Metadata | UserMetadata

definition meta_of :: "xattr_map \<Rightarrow> Inode \<Rightarrow> (string \<rightharpoonup> string) option" where
  "meta_of sel inode = (case sel of S3Metadata \<Rightarrow> Some (s3Metadata inode) | UserMetadata \<Rightarrow> userMetadata inode)"

definition meta_update :: "xattr_map \<Rightarrow> (string \<rightharpoonup> string) \<Rightarrow> Inode \<Rightarrow> Inode" where
  "meta_update sel m inode =
     (case sel of S3Metadata \<Rightarrow> inode\<lparr>s3Metadata := m\<rparr> | UserMetadata \<Rightarrow> inode\<lparr>userMetadata := Some m\<rparr>)"

definition getXattrMap ::
  "Library \<Rightarrow> error + HeadBlobOutput \<Rightarrow> string \<Rightarrow> bool \<Rightarrow> Inode
     \<Rightarrow> (error + xattr_map \<times> string) \<times> Inode" where
  "getXattrMap lib head name userOnly inode0 =
    (case fst (cloud inode0) of
       None \<Rightarrow> (Inl Panic, inode0)
     | Some c \<Rightarrow>
        (let xattrPrefix = capName c @ ''.'' in
         if prefix xattrPrefix name then
           (if userOnly then (Inl EPERM, inode0)
            else (Inr (S3Metadata, drop (length xattrPrefix) name), inode0))
         else if prefix ''user.'' name \<and> name \<noteq> ''user.'' @ SymlinkAttr (flags (fs inode0)) then
           (case fillXattr lib head inode0 of
              (Some err, inode) \<Rightarrow> (Inl err, inode)
            | (None, inode) \<Rightarrow>
                if userMetadata inode = None then (Inl ENOSYS, inode)
                else (Inr (UserMetadata, drop 5 name), inode))
         else
           (if userOnly then (Inl EPERM, inode0) else (Inl ENOSYS, inode0))))"

definition XATTR_CREATE :: "32 word" where "XATTR_CREATE = 1"
definition XATTR_REPLACE :: "32 word" where "XATTR_REPLACE = 2"

text \<open>
  Modelled from the spec: \<^verbatim>\<open>Dup\<close> is defined in another file; the specification
  says the value bytes are duplicated. Byte lists are values here, so the copy is the list.
\<close>

definition Dup :: "string \<Rightarrow> string" where
  "Dup v = v"

text \<open>
  Modelled from the spec: \<^verbatim>\<open>WakeupFlusher\<close> is the idempotent signal to the
  flusher that new work exists; the call is recorded.
\<close>

definition WakeupFlusher :: "Inode \<Rightarrow> Inode" where
  "WakeupFlusher inode = record_call Call_WakeupFlusher inode"

definition SetXattr ::
  "Library \<Rightarrow> error + HeadBlobOutput \<Rightarrow> string \<Rightarrow> string \<Rightarrow> 32 word \<Rightarrow> Inode
     \<Rightarrow> error option \<times> Inode" where
  "SetXattr lib head name val flgs inode0 =
    (case getXattrMap lib head name True inode0 of
       (Inl err, inode) \<Rightarrow> (Some err, inode)
     | (Inr (sel, newName), inode) \<Rightarrow>
        (case meta_of sel inode of
           None \<Rightarrow> (Some Panic, inode)
         | Some meta \<Rightarrow>
            (let ok = (meta newName \<noteq> None) in
             if flgs \<noteq> 0 \<and> flgs = XATTR_CREATE \<and> ok then (Some EEXIST, inode)
             else if flgs \<noteq> 0 \<and> flgs \<noteq> XATTR_CREATE \<and> flgs = XATTR_REPLACE \<and> \<not> ok
               then (Some ENODATA, inode)
             else
               (let inode = meta_update sel (meta(newName \<mapsto> Dup val)) inode;
                    inode = inode\<lparr>userMetadataDirty := 2\<rparr>;
                    inode = (if CacheState inode = ST_CACHED
                             then WakeupFlusher (SetCacheState ST_MODIFIED inode) else inode)
                in (None, inode)))))"

definition RemoveXattr ::
  "Library \<Rightarrow> error + HeadBlobOutput \<Rightarrow> string \<Rightarrow> Inode \<Rightarrow> error option \<times> Inode" where
  "RemoveXattr lib head name inode0 =
    (case getXattrMap lib head name True inode0 of
       (Inl err, inode) \<Rightarrow> (Some err, inode)
     | (Inr (sel, newName), inode) \<Rightarrow>
        (case meta_of sel inode of
           None \<Rightarrow> (Some ENODATA, inode)
         | Some meta \<Rightarrow>
            if meta newName \<noteq> None then
              (let inode = meta_update sel (meta(newName := None)) inode;
                   inode = inode\<lparr>userMetadataDirty := 2\<rparr>;
                   inode = (if CacheState inode = ST_CACHED
                            then WakeupFlusher (SetCacheState ST_MODIFIED inode) else inode)
               in (None, inode))
            else (Some ENODATA, inode)))"

definition GetXattr ::
  "Library \<Rightarrow> error + HeadBlobOutput \<Rightarrow> string \<Rightarrow> Inode \<Rightarrow> (error + string) \<times> Inode" where
  "GetXattr lib head name inode0 =
    (case getXattrMap lib head name False inode0 of
       (Inl err, inode) \<Rightarrow> (Inl err, inode)
     | (Inr (sel, newName), inode) \<Rightarrow>
        (case meta_of sel inode of
           None \<Rightarrow> (Inl ENODATA, inode)
         | Some meta \<Rightarrow>
            (case meta newName of
               Some v \<Rightarrow> (Inr v, inode)
             | None \<Rightarrow> (Inl ENODATA, inode))))"

subsection \<open>Metadata to the backend\<close>








subsection \<open>Example values\<close>

definition example_flags :: FlagStorage where
  "example_flags =
     \<lparr>flag_Uid = 1000, flag_Gid = 1000, FileMode = 420, DirMode = 493,
      EnableMtime = True, EnablePerms = True, EnableSpecials = True,
      MtimeAttr = ''mtime'', UidAttr = ''uid'', GidAttr = ''gid'',
      FileModeAttr = ''mode'', RdevAttr = ''rdev'', SymlinkAttr = ''--symlink-target''\<rparr>"

definition example_fs :: Goofys where
  "example_fs =
     \<lparr>flags = example_flags,
      rootAttrs = \<lparr>Size = 4096, Mtime = 5, Ctime = 7, Uid = 0, Gid = 0, Rdev = 0, Mode = 0\<rparr>,
      inodes = {1, 2},
      forgotCnt = 0,
      calls = []\<rparr>"

definition example_root :: Ancestor where
  "example_root =
     \<lparr>anc_Name = [], anc_dir = \<lparr>cloud_of = Some (OtherBackend ''s3''), mountPrefix = ''pfx/''\<rparr>\<rparr>"

text \<open>
  A regular file of 10 bytes below the root of an \<open>s3\<close> mount, modified locally, last
  seen on the server with 10 bytes and the ETag \<open>A\<close>.
\<close>

definition example_inode :: Inode where
  "example_inode =
     \<lparr>Id = 2, Name = ''file'', fs = example_fs,
      Attributes = \<lparr>Size = 10, Mtime = 30, Ctime = 30, Uid = 1000, Gid = 1000, Rdev = 0, Mode = 420\<rparr>,
      AttrTime = 40, Parent = [example_root], dir = None, ImplicitDir = False,
      CacheState = ST_MODIFIED, userMetadataDirty = 2,
      userMetadata = Some [''foo'' \<mapsto> ''bar''],
      s3Metadata = [''etag'' \<mapsto> ''A''],
      knownSize = 10, knownETag = ''A'', refcnt = 1\<rparr>"

text \<open>A library whose \<^verbatim>\<open>ParseUint\<close> fails on every string and whose mode
  conversions change nothing.\<close>

definition example_lib :: Library where
  "example_lib =
     \<lparr>ParseUint = (\<lambda>s base bitSize. (0, False)),
      ConvertFileMode = (\<lambda>m. m),
      ConvertGolangMode = (\<lambda>m. m)\<rparr>"

text \<open>The object as the server lists it after a remote change: 20 bytes, ETag \<open>B\<close>.\<close>

definition example_item :: BlobItemOutput where
  "example_item =
     \<lparr>item_Key = Some ''file'', item_ETag = Some ''B'', item_LastModified = Some 50,
      item_Size = 20, item_StorageClass = None, item_Metadata = Some [(''Foo'', ''a%20b'')]\<rparr>"

text \<open>The object as the server lists it when nothing changed, with a newer time stamp.\<close>

definition example_item_same :: BlobItemOutput where
  "example_item_same =
     \<lparr>item_Key = Some ''file'', item_ETag = Some ''A'', item_LastModified = Some 50,
      item_Size = 10, item_StorageClass = None, item_Metadata = Some [(''Foo'', ''a%20b'')]\<rparr>"

text \<open>A listing entry that carries no ETag.\<close>

definition example_item_no_etag :: BlobItemOutput where
  "example_item_no_etag =
     \<lparr>item_Key = Some ''file'', item_ETag = None, item_LastModified = Some 50,
      item_Size = 10, item_StorageClass = None, item_Metadata = None\<rparr>"

text \<open>The same file in a filesystem mounted without the special-files option.\<close>

definition example_inode_no_specials :: Inode where
  "example_inode_no_specials =
     example_inode\<lparr>fs := example_fs\<lparr>flags := example_flags\<lparr>EnableSpecials := False\<rparr>\<rparr>\<rparr>"

text \<open>
  An implicit directory below the root: no object stands for it on the server, and its user
  metadata has not been loaded (the map is nil).
\<close>

definition example_implicit_dir :: Inode where
  "example_implicit_dir =
     example_inode\<lparr>Name := ''dir'', dir := Some \<lparr>cloud_of = None, mountPrefix = []\<rparr>,
       ImplicitDir := True, userMetadata := None\<rparr>"

section \<open>Properties\<close>

subsection \<open>What setMetadata writes\<close>

lemma setMetadata_mtime_attrs:
  "Ctime (setMetadata_mtime lib fl um a) = Ctime a"
  "Size (setMetadata_mtime lib fl um a) = Size a"
  unfolding setMetadata_mtime_def Let_def
  by (simp_all split: option.split prod.split)

lemma setMetadata_uid_attrs:
  "Ctime (setMetadata_uid lib fl um a) = Ctime a"
  "Size (setMetadata_uid lib fl um a) = Size a"
  "Mtime (setMetadata_uid lib fl um a) = Mtime a"
  unfolding setMetadata_uid_def Let_def
  by (simp_all split: option.split prod.split)

lemma setMetadata_gid_attrs:
  "Ctime (setMetadata_gid lib fl um a) = Ctime a"
  "Size (setMetadata_gid lib fl um a) = Size a"
  "Mtime (setMetadata_gid lib fl um a) = Mtime a"
  unfolding setMetadata_gid_def Let_def
  by (simp_all split: option.split prod.split)

lemma setMetadata_mode_attrs:
  "Ctime (setMetadata_mode lib fl um a) = Ctime a"
  "Size (setMetadata_mode lib fl um a) = Size a"
  "Mtime (setMetadata_mode lib fl um a) = Mtime a"
  unfolding setMetadata_mode_def Let_def
  by (simp_all split: option.split prod.split)

lemma setMetadata_fields:
  "fs (setMetadata lib md inode) = fs inode"
  "knownSize (setMetadata lib md inode) = knownSize inode"
  "knownETag (setMetadata lib md inode) = knownETag inode"
  "s3Metadata (setMetadata lib md inode) = s3Metadata inode"
  "AttrTime (setMetadata lib md inode) = AttrTime inode"
  "CacheState (setMetadata lib md inode) = CacheState inode"
  "userMetadataDirty (setMetadata lib md inode) = userMetadataDirty inode"
  "userMetadata (setMetadata lib md inode) = Some (unescapeMetadata md)"
  by (simp_all add: setMetadata_def Let_def)

lemma setMetadata_Ctime:
  "Ctime (Attributes (setMetadata lib md inode)) = Ctime (Attributes inode)"
  by (simp add: setMetadata_def Let_def setMetadata_mtime_attrs setMetadata_uid_attrs
      setMetadata_gid_attrs setMetadata_mode_attrs)

lemma setMetadata_Mtime:
  "Mtime (Attributes (setMetadata lib md inode)) =
     (if EnableMtime (flags (fs inode))
      then Mtime (setMetadata_mtime lib (flags (fs inode)) (unescapeMetadata md) (Attributes inode))
      else Mtime (Attributes inode))"
  by (simp add: setMetadata_def Let_def setMetadata_uid_attrs
      setMetadata_gid_attrs setMetadata_mode_attrs)

subsection \<open>SetFromBlobItem\<close>

lemma conflict_iff:
  "conflict item inode \<longleftrightarrow>
     (item_ETag item \<noteq> None \<and> item_ETag item \<noteq> Some (knownETag inode))
       \<or> item_Size item \<noteq> knownSize inode"
  by (auto simp: conflict_def split: option.split)

lemma drop_calls:
  "calls (fs (SetFromBlobItem_drop lib item inode)) =
     calls (fs inode) @
       (if CacheState inode \<noteq> ST_CACHED \<and> (knownETag inode \<noteq> [] \<or> 0 < knownSize inode)
        then [Warnf_conflict] else [])
       @ [Call_resetCache, Call_ResizeUnlocked (item_Size item) False False]"
  by (simp add: SetFromBlobItem_drop_def Let_def setMetadata_fields resetCache_def
      ResizeUnlocked_def record_call_def split: option.split)

lemma drop_fields:
  "knownSize (SetFromBlobItem_drop lib item inode) = item_Size item"
  "knownETag (SetFromBlobItem_drop lib item inode) = knownETag inode"
  "s3Metadata (SetFromBlobItem_drop lib item inode) = s3Metadata inode"
  "AttrTime (SetFromBlobItem_drop lib item inode) = AttrTime inode"
  "Ctime (Attributes (SetFromBlobItem_drop lib item inode)) =
     (case item_LastModified item of Some t \<Rightarrow> t | None \<Rightarrow> Ctime (rootAttrs (fs inode)))"
  by (simp_all add: SetFromBlobItem_drop_def Let_def setMetadata_fields setMetadata_Ctime
      resetCache_def ResizeUnlocked_def record_call_def split: option.split)

lemma drop_metadata:
  "item_Metadata item = Some md \<Longrightarrow>
     userMetadata (SetFromBlobItem_drop lib item inode) = Some (unescapeMetadata (Some md))"
  "item_Metadata item = Some md \<Longrightarrow> userMetadataDirty (SetFromBlobItem_drop lib item inode) = 0"
  by (simp_all add: SetFromBlobItem_drop_def Let_def setMetadata_fields)

lemma drop_Mtime_no_metadata:
  "item_Metadata item = None \<Longrightarrow>
   Mtime (Attributes (SetFromBlobItem_drop lib item inode)) =
     (case item_LastModified item of Some t \<Rightarrow> t | None \<Rightarrow> Ctime (rootAttrs (fs inode)))"
  by (simp add: SetFromBlobItem_drop_def Let_def resetCache_def ResizeUnlocked_def
      record_call_def split: option.split)

lemma drop_Mtime_metadata:
  "item_Metadata item = Some md \<Longrightarrow>
   Mtime (Attributes (SetFromBlobItem_drop lib item inode)) =
     (case (if EnableMtime (flags (fs inode))
            then unescapeMetadata (Some md) (MtimeAttr (flags (fs inode))) else None) of
        None \<Rightarrow> (case item_LastModified item of Some t \<Rightarrow> t | None \<Rightarrow> Ctime (rootAttrs (fs inode)))
      | Some s \<Rightarrow>
          if snd (ParseUint lib s 0 64)
          then time_Unix (sint (word_of_nat (fst (ParseUint lib s 0 64)) :: 64 word))
          else (case item_LastModified item of Some t \<Rightarrow> t | None \<Rightarrow> Ctime (rootAttrs (fs inode))))"
  by (simp add: SetFromBlobItem_drop_def Let_def setMetadata_Mtime setMetadata_mtime_def
      resetCache_def ResizeUnlocked_def record_call_def split: option.split prod.split)

lemma etag_fields:
  "s3Metadata (SetFromBlobItem_etag item inode) ''etag'' = item_ETag item"
  "knownETag (SetFromBlobItem_etag item inode) =
     (case item_ETag item of None \<Rightarrow> knownETag inode | Some e \<Rightarrow> e)"
  "fs (SetFromBlobItem_etag item inode) = fs inode"
  "knownSize (SetFromBlobItem_etag item inode) = knownSize inode"
  "AttrTime (SetFromBlobItem_etag item inode) = AttrTime inode"
  "Attributes (SetFromBlobItem_etag item inode) = Attributes inode"
  "userMetadata (SetFromBlobItem_etag item inode) = userMetadata inode"
  "userMetadataDirty (SetFromBlobItem_etag item inode) = userMetadataDirty inode"
  by (simp_all add: SetFromBlobItem_etag_def split: option.split)

lemma storage_class_fields:
  "s3Metadata (SetFromBlobItem_storage_class item inode) ''etag'' = s3Metadata inode ''etag''"
  "knownETag (SetFromBlobItem_storage_class item inode) = knownETag inode"
  "fs (SetFromBlobItem_storage_class item inode) = fs inode"
  "knownSize (SetFromBlobItem_storage_class item inode) = knownSize inode"
  "AttrTime (SetFromBlobItem_storage_class item inode) = AttrTime inode"
  "Attributes (SetFromBlobItem_storage_class item inode) = Attributes inode"
  "userMetadata (SetFromBlobItem_storage_class item inode) = userMetadata inode"
  "userMetadataDirty (SetFromBlobItem_storage_class item inode) = userMetadataDirty inode"
  by (simp_all add: SetFromBlobItem_storage_class_def split: option.split)

lemma attr_time_fields:
  "s3Metadata (SetFromBlobItem_attr_time now inode) = s3Metadata inode"
  "knownETag (SetFromBlobItem_attr_time now inode) = knownETag inode"
  "fs (SetFromBlobItem_attr_time now inode) = fs inode"
  "knownSize (SetFromBlobItem_attr_time now inode) = knownSize inode"
  "AttrTime (SetFromBlobItem_attr_time now inode) = (if AttrTime inode < now then now else AttrTime inode)"
  "Attributes (SetFromBlobItem_attr_time now inode) = Attributes inode"
  "userMetadata (SetFromBlobItem_attr_time now inode) = userMetadata inode"
  "userMetadataDirty (SetFromBlobItem_attr_time now inode) = userMetadataDirty inode"
  by (simp_all add: SetFromBlobItem_attr_time_def)

lemmas SetFromBlobItem_steps = etag_fields storage_class_fields attr_time_fields

text \<open>
  C1. SetFromBlobItem resets the cache (\<^verbatim>\<open>resetCache\<close>, then
  \<^verbatim>\<open>ResizeUnlocked\<close> to the observed size) exactly when the item carries an ETag that
  differs from \<open>knownETag\<close>, or the observed size differs from \<open>knownSize\<close>; the
  warning is emitted, before the reset, exactly when moreover the cache state was not CACHED
  and a known state existed. These are all the calls that the function adds.
\<close>

theorem SetFromBlobItem_resets_on_conflict:
  "calls (fs (SetFromBlobItem lib now item inode)) =
     calls (fs inode) @
       (if (item_ETag item \<noteq> None \<and> item_ETag item \<noteq> Some (knownETag inode))
            \<or> item_Size item \<noteq> knownSize inode
        then
          (if CacheState inode \<noteq> ST_CACHED \<and> (knownETag inode \<noteq> [] \<or> 0 < knownSize inode)
           then [Warnf_conflict] else [])
          @ [Call_resetCache, Call_ResizeUnlocked (item_Size item) False False]
        else [])"
  by (simp add: SetFromBlobItem_def SetFromBlobItem_steps drop_calls conflict_iff)

theorem SetFromBlobItem_resets_on_conflict_witness:
  "calls (fs (SetFromBlobItem example_lib 100 example_item example_inode)) =
     [Warnf_conflict, Call_resetCache, Call_ResizeUnlocked 20 False False]
   \<and> calls (fs (SetFromBlobItem example_lib 100 example_item
        (example_inode\<lparr>CacheState := ST_CACHED\<rparr>))) =
     [Call_resetCache, Call_ResizeUnlocked 20 False False]
   \<and> calls (fs (SetFromBlobItem example_lib 100 example_item_same example_inode)) = []
   \<and> calls (fs (SetFromBlobItem example_lib 100 example_item_no_etag example_inode)) = []"
  using SetFromBlobItem_resets_on_conflict [of example_lib 100 example_item example_inode]
    SetFromBlobItem_resets_on_conflict [of example_lib 100 example_item
      "example_inode\<lparr>CacheState := ST_CACHED\<rparr>"]
    SetFromBlobItem_resets_on_conflict [of example_lib 100 example_item_same example_inode]
    SetFromBlobItem_resets_on_conflict [of example_lib 100 example_item_no_etag example_inode]
  by (simp add: example_item_def example_item_same_def example_item_no_etag_def
      example_inode_def example_fs_def ST_CACHED_def ST_MODIFIED_def)

text \<open>
  C2, as the code has it. After every call \<open>knownSize\<close> is the observed size and
  \<open>AttrTime\<close> has advanced to \<open>now\<close> unless it was not before \<open>now\<close>. The times
  and the user metadata are written only when a conflict was detected: then \<open>Ctime\<close> is
  the item's last-modified time (the root's \<open>Ctime\<close> when absent), and so is \<open>Mtime\<close>
  unless the item's metadata carries a modification time that \<^verbatim>\<open>setMetadata\<close>
  accepts; metadata that is present is unescaped into \<open>userMetadata\<close> and
  \<open>userMetadataDirty\<close> is cleared. Without a conflict the attributes, \<open>userMetadata\<close>
  and \<open>userMetadataDirty\<close> stay as they were.
\<close>

theorem SetFromBlobItem_stores:
  "let r = SetFromBlobItem lib now item inode;
       lm = (case item_LastModified item of Some t \<Rightarrow> t | None \<Rightarrow> Ctime (rootAttrs (fs inode)));
       conflicting = ((item_ETag item \<noteq> None \<and> item_ETag item \<noteq> Some (knownETag inode))
                       \<or> item_Size item \<noteq> knownSize inode)
   in knownSize r = item_Size item
    \<and> AttrTime r = (if AttrTime inode < now then now else AttrTime inode)
    \<and> (conflicting \<longrightarrow>
          Ctime (Attributes r) = lm
        \<and> (item_Metadata item = None \<longrightarrow> Mtime (Attributes r) = lm)
        \<and> (\<forall>md. item_Metadata item = Some md \<longrightarrow>
              userMetadata r = Some (unescapeMetadata (Some md))
            \<and> userMetadataDirty r = 0
            \<and> Mtime (Attributes r) =
                (case (if EnableMtime (flags (fs inode))
                       then unescapeMetadata (Some md) (MtimeAttr (flags (fs inode))) else None) of
                   None \<Rightarrow> lm
                 | Some s \<Rightarrow>
                     if snd (ParseUint lib s 0 64)
                     then time_Unix (sint (word_of_nat (fst (ParseUint lib s 0 64)) :: 64 word))
                     else lm)))
    \<and> (\<not> conflicting \<longrightarrow>
          Attributes r = Attributes inode
        \<and> userMetadata r = userMetadata inode
        \<and> userMetadataDirty r = userMetadataDirty inode)"
proof -
  define r where "r = SetFromBlobItem lib now item inode"
  define lm where
    "lm = (case item_LastModified item of Some t \<Rightarrow> t | None \<Rightarrow> Ctime (rootAttrs (fs inode)))"
  have c: "conflict item inode \<longleftrightarrow>
      (item_ETag item \<noteq> None \<and> item_ETag item \<noteq> Some (knownETag inode))
        \<or> item_Size item \<noteq> knownSize inode"
    by (rule conflict_iff)
  have size: "knownSize r = item_Size item"
    by (simp add: r_def SetFromBlobItem_def SetFromBlobItem_steps drop_fields conflict_def
        split: option.split)
  have attr: "AttrTime r = (if AttrTime inode < now then now else AttrTime inode)"
    by (simp add: r_def SetFromBlobItem_def SetFromBlobItem_steps drop_fields)
  have same: "Attributes r = Attributes inode \<and> userMetadata r = userMetadata inode
      \<and> userMetadataDirty r = userMetadataDirty inode" if "\<not> conflict item inode"
    using that by (simp add: r_def SetFromBlobItem_def SetFromBlobItem_steps)
  have ctime: "Ctime (Attributes r) = lm" if "conflict item inode"
    using that by (simp add: r_def lm_def SetFromBlobItem_def SetFromBlobItem_steps drop_fields)
  have mtime_none: "Mtime (Attributes r) = lm" if "conflict item inode" "item_Metadata item = None"
    using that
    by (simp add: r_def lm_def SetFromBlobItem_def SetFromBlobItem_steps drop_Mtime_no_metadata)
  have md: "userMetadata r = Some (unescapeMetadata (Some md)) \<and> userMetadataDirty r = 0
      \<and> Mtime (Attributes r) =
          (case (if EnableMtime (flags (fs inode))
                 then unescapeMetadata (Some md) (MtimeAttr (flags (fs inode))) else None) of
             None \<Rightarrow> lm
           | Some s \<Rightarrow>
               if snd (ParseUint lib s 0 64)
               then time_Unix (sint (word_of_nat (fst (ParseUint lib s 0 64)) :: 64 word))
               else lm)"
    if "conflict item inode" "item_Metadata item = Some md" for md
    using that unfolding r_def lm_def
    by (simp add: SetFromBlobItem_def SetFromBlobItem_steps drop_metadata
        drop_Mtime_metadata)
  show ?thesis
    unfolding Let_def r_def [symmetric] lm_def [symmetric] c [symmetric]
    using size attr same ctime mtime_none md by blast
qed

theorem SetFromBlobItem_stores_witness:
  "knownSize (SetFromBlobItem example_lib 100 example_item example_inode) = 20
   \<and> AttrTime (SetFromBlobItem example_lib 100 example_item example_inode) = 100
   \<and> Ctime (Attributes (SetFromBlobItem example_lib 100 example_item example_inode)) = 50
   \<and> Mtime (Attributes (SetFromBlobItem example_lib 100 example_item example_inode)) = 50
   \<and> userMetadata (SetFromBlobItem example_lib 100 example_item example_inode)
        = Some [''foo'' \<mapsto> ''a b'']
   \<and> userMetadataDirty (SetFromBlobItem example_lib 100 example_item example_inode) = 0
   \<and> Attributes (SetFromBlobItem example_lib 100 example_item_same example_inode)
        = Attributes example_inode
   \<and> userMetadataDirty (SetFromBlobItem example_lib 100 example_item_same example_inode) = 2"
proof -
  have k: "PathUnescape (ToLower ''Foo'') = Some ''foo''"
    by code_simp
  have v: "PathUnescape ''a%20b'' = Some ''a b''"
    by code_simp
  have um: "unescapeMetadata (Some [(''Foo'', ''a%20b'')]) = [''foo'' \<mapsto> ''a b'']"
    by (simp add: unescapeMetadata_def entries_def unescape_step_def k v del: PathUnescape.simps)
  show ?thesis
    using SetFromBlobItem_stores [of example_lib 100 example_item example_inode]
      SetFromBlobItem_stores [of example_lib 100 example_item_same example_inode]
    by (simp add: Let_def um example_item_def example_item_same_def example_inode_def
        example_fs_def example_flags_def example_lib_def)
qed

text \<open>
  Against C2 as stated: the server lists the object unchanged (same size, same ETag) with the
  last-modified time 50; no conflict is detected and the inode keeps the times it had (30),
  its user metadata and its dirty mark 2, although the item carries metadata.
\<close>

theorem SetFromBlobItem_stores_counterexample:
  "item_LastModified example_item_same = Some 50
   \<and> item_Metadata example_item_same = Some [(''Foo'', ''a%20b'')]
   \<and> Mtime (Attributes (SetFromBlobItem example_lib 100 example_item_same example_inode)) = 30
   \<and> Ctime (Attributes (SetFromBlobItem example_lib 100 example_item_same example_inode)) = 30
   \<and> userMetadataDirty (SetFromBlobItem example_lib 100 example_item_same example_inode) = 2
   \<and> userMetadata (SetFromBlobItem example_lib 100 example_item_same example_inode)
        = Some [''foo'' \<mapsto> ''bar'']"
  by (simp add: SetFromBlobItem_def SetFromBlobItem_steps conflict_def example_item_same_def
      example_inode_def)

text \<open>
  C10. When the item carries no ETag, the \<open>etag\<close> entry of \<open>s3Metadata\<close> is deleted and
  \<open>knownETag\<close> keeps its value, so the two can disagree after the call; when the item
  carries an ETag, both are set to it.
\<close>

theorem SetFromBlobItem_etag_and_knownETag:
  "(item_ETag item = None \<longrightarrow>
      s3Metadata (SetFromBlobItem lib now item inode) ''etag'' = None
    \<and> knownETag (SetFromBlobItem lib now item inode) = knownETag inode)
   \<and> (\<forall>e. item_ETag item = Some e \<longrightarrow>
      s3Metadata (SetFromBlobItem lib now item inode) ''etag'' = Some e
    \<and> knownETag (SetFromBlobItem lib now item inode) = e)"
  by (simp add: SetFromBlobItem_def SetFromBlobItem_steps drop_fields)

theorem SetFromBlobItem_etag_and_knownETag_witness:
  "s3Metadata (SetFromBlobItem example_lib 100 example_item_no_etag example_inode) ''etag'' = None
   \<and> knownETag (SetFromBlobItem example_lib 100 example_item_no_etag example_inode) = ''A''
   \<and> s3Metadata (SetFromBlobItem example_lib 100 example_item example_inode) ''etag'' = Some ''B''
   \<and> knownETag (SetFromBlobItem example_lib 100 example_item example_inode) = ''B''"
  using SetFromBlobItem_etag_and_knownETag [of example_item_no_etag example_lib 100 example_inode]
    SetFromBlobItem_etag_and_knownETag [of example_item example_lib 100 example_inode]
  by (simp add: example_item_no_etag_def example_item_def example_inode_def)

subsection \<open>InflateAttributes\<close>

text \<open>
  C3, as the code has it. In the record that InflateAttributes returns, \<open>Atime\<close> is the
  internal \<open>Ctime\<close>, \<open>Crtime\<close> is the presented \<open>Mtime\<close>, \<open>Nlink\<close> is 2 for a
  directory and 1 otherwise, and a zero internal \<open>Mtime\<close> is presented as the
  \<open>Mtime\<close> of the filesystem root's attributes.
\<close>

theorem InflateAttributes_times_and_links:
  "fuse_Atime (InflateAttributes inode) = Ctime (Attributes inode)
   \<and> fuse_Crtime (InflateAttributes inode) = fuse_Mtime (InflateAttributes inode)
   \<and> fuse_Nlink (InflateAttributes inode) = (if dir inode \<noteq> None then 2 else 1)
   \<and> fuse_Mtime (InflateAttributes inode) =
        (if Mtime (Attributes inode) = 0 then Mtime (rootAttrs (fs inode))
         else Mtime (Attributes inode))"
  by (simp add: InflateAttributes_def Let_def)

theorem InflateAttributes_times_and_links_witness:
  "fuse_Atime (InflateAttributes example_inode) = 30
   \<and> fuse_Crtime (InflateAttributes example_inode) = 30
   \<and> fuse_Nlink (InflateAttributes example_inode) = 1
   \<and> fuse_Mtime (InflateAttributes example_inode) = 30
   \<and> fuse_Nlink (InflateAttributes
        (example_inode\<lparr>dir := Some \<lparr>cloud_of = None, mountPrefix = []\<rparr>\<rparr>)) = 2"
  using InflateAttributes_times_and_links [of example_inode]
    InflateAttributes_times_and_links
      [of "example_inode\<lparr>dir := Some \<lparr>cloud_of = None, mountPrefix = []\<rparr>\<rparr>"]
  by (simp add: example_inode_def)

text \<open>
  Against C3 as stated: an inode whose \<open>Mtime\<close> is zero, in a filesystem whose root
  attributes have \<open>Mtime\<close> 5 and \<open>Ctime\<close> 7, is presented with \<open>Mtime\<close> 5.
\<close>

theorem InflateAttributes_zero_mtime_counterexample:
  "Mtime (Attributes (example_inode\<lparr>Attributes := (Attributes example_inode)\<lparr>Mtime := 0\<rparr>\<rparr>)) = 0
   \<and> Ctime (rootAttrs (fs (example_inode\<lparr>Attributes := (Attributes example_inode)\<lparr>Mtime := 0\<rparr>\<rparr>))) = 7
   \<and> fuse_Mtime (InflateAttributes
        (example_inode\<lparr>Attributes := (Attributes example_inode)\<lparr>Mtime := 0\<rparr>\<rparr>)) = 5"
  by (simp add: InflateAttributes_def Let_def example_inode_def example_fs_def)

subsection \<open>DeRef\<close>

text \<open>
  C4. \<open>DeRef n\<close> panics when the new reference count is negative. When the new count is
  zero and the cache state is CACHED it resets the cache, removes the inode's id from the
  table of the filesystem, increments the forget counter and tells the LFRU tracker to
  forget the id, and returns true. When the new count is zero in any other cache state it
  returns true and leaves the filesystem, its table included, as it was.
\<close>

theorem DeRef_cases:
  "(sint (refcnt inode - n) < 0 \<longrightarrow> fst (DeRef n inode) = Inl Panic)
   \<and> (refcnt inode - n = 0 \<and> CacheState inode = ST_CACHED \<longrightarrow>
        fst (DeRef n inode) = Inr True
      \<and> calls (fs (snd (DeRef n inode))) =
          calls (fs inode) @ [Call_resetCache, Call_lfru_Forget (Id inode)]
      \<and> inodes (fs (snd (DeRef n inode))) = inodes (fs inode) - {Id inode}
      \<and> forgotCnt (fs (snd (DeRef n inode))) = forgotCnt (fs inode) + 1
      \<and> refcnt (snd (DeRef n inode)) = 0)
   \<and> (refcnt inode - n = 0 \<and> CacheState inode \<noteq> ST_CACHED \<longrightarrow>
        fst (DeRef n inode) = Inr True
      \<and> fs (snd (DeRef n inode)) = fs inode
      \<and> CacheState (snd (DeRef n inode)) = CacheState inode
      \<and> refcnt (snd (DeRef n inode)) = 0)
   \<and> (0 < sint (refcnt inode - n) \<longrightarrow>
        fst (DeRef n inode) = Inr False
      \<and> fs (snd (DeRef n inode)) = fs inode
      \<and> refcnt (snd (DeRef n inode)) = refcnt inode - n)"
  by (auto simp add: DeRef_def Let_def resetCache_def record_call_def)

theorem DeRef_cases_witness:
  "fst (DeRef 2 example_inode) = Inl Panic
   \<and> fst (DeRef 1 (example_inode\<lparr>CacheState := ST_CACHED\<rparr>)) = Inr True
   \<and> calls (fs (snd (DeRef 1 (example_inode\<lparr>CacheState := ST_CACHED\<rparr>)))) =
        [Call_resetCache, Call_lfru_Forget 2]
   \<and> inodes (fs (snd (DeRef 1 (example_inode\<lparr>CacheState := ST_CACHED\<rparr>)))) = {1}
   \<and> forgotCnt (fs (snd (DeRef 1 (example_inode\<lparr>CacheState := ST_CACHED\<rparr>)))) = 1
   \<and> fst (DeRef 1 example_inode) = Inr True
   \<and> inodes (fs (snd (DeRef 1 example_inode))) = {1, 2}
   \<and> refcnt (snd (DeRef 1 example_inode)) = 0
   \<and> fst (DeRef 1 (example_inode\<lparr>refcnt := 3\<rparr>)) = Inr False"
  using DeRef_cases [of example_inode 2]
    DeRef_cases [of "example_inode\<lparr>CacheState := ST_CACHED\<rparr>" 1]
    DeRef_cases [of example_inode 1]
    DeRef_cases [of "example_inode\<lparr>refcnt := 3\<rparr>" 1]
  by (simp add: example_inode_def example_fs_def ST_CACHED_def ST_MODIFIED_def insert_Diff_if)

subsection \<open>setFileMode\<close>

lemma ModePerm_ModeType: "ModePerm AND ModeType = 0" "ModeType AND ModePerm = 0"
  by (simp_all add: ModePerm_def ModeType_def ModeDir_def ModeSymlink_def ModeNamedPipe_def
      ModeSocket_def ModeDevice_def ModeCharDevice_def ModeIrregular_def)

lemma type_bits_of_mix: "((x AND ModePerm) OR (y AND ModeType)) AND ModeType = y AND ModeType"
  for x y :: "32 word"
proof -
  have "((x AND ModePerm) OR (y AND ModeType)) AND ModeType
      = (x AND (ModePerm AND ModeType)) OR (y AND (ModeType AND ModeType))"
    by (simp add: bit.conj_disj_distrib2 and.assoc)
  then show ?thesis by (simp add: ModePerm_ModeType)
qed

lemma perm_bits_of_mix: "((x AND ModeType) OR (y AND ModePerm)) AND ModePerm = y AND ModePerm"
  for x y :: "32 word"
proof -
  have "((x AND ModeType) OR (y AND ModePerm)) AND ModePerm
      = (x AND (ModeType AND ModePerm)) OR (y AND (ModePerm AND ModePerm))"
    by (simp add: bit.conj_disj_distrib2 and.assoc)
  then show ?thesis by (simp add: ModePerm_ModeType)
qed

lemma type_bits_kept: "((x AND ModeType) OR (y AND ModePerm)) AND ModeType = x AND ModeType"
  for x y :: "32 word"
proof -
  have "((x AND ModeType) OR (y AND ModePerm)) AND ModeType
      = (x AND (ModeType AND ModeType)) OR (y AND (ModePerm AND ModeType))"
    by (simp add: bit.conj_disj_distrib2 and.assoc)
  then show ?thesis by (simp add: ModePerm_ModeType)
qed

lemma perm_bits_kept: "((x AND ModePerm) OR (y AND ModeType)) AND ModePerm = x AND ModePerm"
  for x y :: "32 word"
proof -
  have "((x AND ModePerm) OR (y AND ModeType)) AND ModePerm
      = (x AND (ModePerm AND ModePerm)) OR (y AND (ModeType AND ModePerm))"
    by (simp add: bit.conj_disj_distrib2 and.assoc)
  then show ?thesis by (simp add: ModePerm_ModeType)
qed

lemma setUserMeta_fields:
  "Attributes (setUserMeta k v inode) = Attributes inode"
  "fs (setUserMeta k v inode) = fs inode"
  "dir (setUserMeta k v inode) = dir inode"
  "userMetadataDirty (setUserMeta k v inode) = 2"
  by (simp_all add: setUserMeta_def Let_def)

lemma setUserMeta_lookup:
  "\<exists>um. userMetadata (setUserMeta k v inode) = Some um \<and> um k = v"
  by (simp add: setUserMeta_def Let_def)

lemma setFileMode_reject:
  "EnableSpecials (flags (fs inode)) \<Longrightarrow>
   (newMode AND ModeDir) \<noteq> (Mode (Attributes inode) AND ModeDir) \<Longrightarrow>
   setFileMode lib newMode inode =
     (Inl (if (newMode AND ModeDir) \<noteq> 0 then ENOTDIR else EISDIR), inode)"
  by (simp add: setFileMode_def Let_def)

text \<open>The mode that \<^verbatim>\<open>setFileMode\<close> computes at lines 490 and 493.\<close>

lemma setFileMode_accept:
  assumes ok: "\<not> (EnableSpecials (flags (fs inode))
      \<and> (newMode AND ModeDir) \<noteq> (Mode (Attributes inode) AND ModeDir))"
  defines "m1 \<equiv> (if EnableSpecials (flags (fs inode))
           then (Mode (Attributes inode) AND ModePerm) OR (newMode AND ModeType)
           else Mode (Attributes inode))"
  defines "m2 \<equiv> (if EnablePerms (flags (fs inode))
           then (m1 AND ModeType) OR (newMode AND ModePerm) else m1)"
  shows "fst (setFileMode lib newMode inode) = Inr (Mode (Attributes inode) \<noteq> m2)"
    and "Mode (Attributes (snd (setFileMode lib newMode inode))) = m2"
    and "userMetadataDirty (snd (setFileMode lib newMode inode)) = 2"
    and "\<exists>um. userMetadata (snd (setFileMode lib newMode inode)) = Some um
          \<and> um (FileModeAttr (flags (fs inode))) =
              (if m2 = (if dir inode \<noteq> None then DirMode (flags (fs inode)) OR ModeDir
                        else FileMode (flags (fs inode)))
               then None else Some (decimal (unat (ConvertGolangMode lib m2))))"
proof -
  define fl where "fl = flags (fs inode)"
  define i1 where "i1 = (if EnableSpecials fl
      then inode\<lparr>Attributes := (Attributes inode)
             \<lparr>Mode := (Mode (Attributes inode) AND ModePerm) OR (newMode AND ModeType)\<rparr>\<rparr>
      else inode)"
  define i2 where "i2 = (if EnablePerms fl
      then i1\<lparr>Attributes := (Attributes i1)
             \<lparr>Mode := (Mode (Attributes i1) AND ModeType) OR (newMode AND ModePerm)\<rparr>\<rparr>
      else i1)"
  define dm where "dm = (if dir i2 \<noteq> None then DirMode fl OR ModeDir else FileMode fl)"
  define i3 where "i3 = (if (Mode (Attributes i2) AND ModeDevice) \<noteq> 0
      then setUserMeta (RdevAttr fl) (Some (decimal (unat (Rdev (Attributes i2))))) i2
      else i2)"
  define i4 where "i4 = (if Mode (Attributes i3) \<noteq> dm
      then setUserMeta (FileModeAttr fl)
             (Some (decimal (unat (ConvertGolangMode lib (Mode (Attributes i3)))))) i3
      else setUserMeta (FileModeAttr fl) None i3)"
  have r: "setFileMode lib newMode inode = (Inr (Mode (Attributes inode) \<noteq> Mode (Attributes i4)), i4)"
    using ok unfolding setFileMode_def Let_def i4_def dm_def i3_def i2_def i1_def fl_def
    by (simp only: if_not_P if_False split: if_split)
  have m1: "Mode (Attributes i1) = m1" "dir i1 = dir inode"
    by (simp_all add: i1_def m1_def fl_def)
  have m2: "Mode (Attributes i2) = m2" "dir i2 = dir inode"
    by (simp_all add: i2_def m2_def m1 fl_def)
  have m3: "Mode (Attributes i3) = m2"
    by (simp add: i3_def setUserMeta_fields m2)
  have m4: "Mode (Attributes i4) = m2"
    by (simp add: i4_def setUserMeta_fields m3)
  show "fst (setFileMode lib newMode inode) = Inr (Mode (Attributes inode) \<noteq> m2)"
    by (simp add: r m4)
  show "Mode (Attributes (snd (setFileMode lib newMode inode))) = m2"
    by (simp add: r m4)
  show "userMetadataDirty (snd (setFileMode lib newMode inode)) = 2"
    by (simp add: r i4_def setUserMeta_fields)
  have "\<exists>um. userMetadata i4 = Some um
          \<and> um (FileModeAttr fl) =
              (if m2 = dm then None else Some (decimal (unat (ConvertGolangMode lib m2))))"
    unfolding i4_def m3
    using setUserMeta_lookup [of "FileModeAttr fl" None i3]
      setUserMeta_lookup [of "FileModeAttr fl"
        "Some (decimal (unat (ConvertGolangMode lib m2)))" i3]
    by (simp split: if_split)
  then show "\<exists>um. userMetadata (snd (setFileMode lib newMode inode)) = Some um
          \<and> um (FileModeAttr (flags (fs inode))) =
              (if m2 = (if dir inode \<noteq> None then DirMode (flags (fs inode)) OR ModeDir
                        else FileMode (flags (fs inode)))
               then None else Some (decimal (unat (ConvertGolangMode lib m2))))"
    unfolding r snd_conv dm_def m2(2) fl_def .
qed

text \<open>
  C8, as the code has it. When the special-files option is on, a new mode whose directory
  bit differs from the inode's is rejected, with ENOTDIR when the new mode has the bit and
  EISDIR otherwise, and the inode is left as it was. In every other case nothing is
  rejected: the type bits become those of the new mode when the special-files option is
  on and are kept when it is off; the permission bits become those of the new mode when
  the permissions option is on and are kept when it is off. If the resulting mode is the
  default mode of the inode's kind the file mode key is deleted from the user metadata,
  otherwise it is written as the decimal number of the converted mode; the user metadata is
  marked dirty (2), and the flag returned says whether the mode changed.
\<close>

theorem setFileMode_behaviour:
  "let fl = flags (fs inode);
       m0 = Mode (Attributes inode);
       res = fst (setFileMode lib newMode inode);
       r = snd (setFileMode lib newMode inode);
       m = Mode (Attributes r);
       defaultMode = (if dir inode \<noteq> None then DirMode fl OR ModeDir else FileMode fl);
       rejected = (EnableSpecials fl \<and> (newMode AND ModeDir) \<noteq> (m0 AND ModeDir))
   in (rejected \<longrightarrow>
         res = Inl (if (newMode AND ModeDir) \<noteq> 0 then ENOTDIR else EISDIR) \<and> r = inode)
    \<and> (\<not> rejected \<longrightarrow>
         res = Inr (m0 \<noteq> m)
       \<and> m = (let m1 = (if EnableSpecials fl
                         then (m0 AND ModePerm) OR (newMode AND ModeType) else m0)
              in if EnablePerms fl then (m1 AND ModeType) OR (newMode AND ModePerm) else m1)
       \<and> m AND ModeType = (if EnableSpecials fl then newMode else m0) AND ModeType
       \<and> m AND ModePerm = (if EnablePerms fl then newMode else m0) AND ModePerm
       \<and> (\<exists>um. userMetadata r = Some um
             \<and> um (FileModeAttr fl) =
                 (if m = defaultMode then None
                  else Some (decimal (unat (ConvertGolangMode lib m)))))
       \<and> userMetadataDirty r = 2)"
proof -
  define fl where "fl = flags (fs inode)"
  define m0 where "m0 = Mode (Attributes inode)"
  define m1 where "m1 = (if EnableSpecials fl
           then (m0 AND ModePerm) OR (newMode AND ModeType) else m0)"
  define m2 where "m2 = (if EnablePerms fl
           then (m1 AND ModeType) OR (newMode AND ModePerm) else m1)"
  define rejected where
    "rejected \<longleftrightarrow> EnableSpecials fl \<and> (newMode AND ModeDir) \<noteq> (m0 AND ModeDir)"
  have rej: "setFileMode lib newMode inode =
      (Inl (if (newMode AND ModeDir) \<noteq> 0 then ENOTDIR else EISDIR), inode)" if rejected
    using that setFileMode_reject [of inode newMode lib]
    by (simp add: rejected_def fl_def m0_def)
  have bitsT: "m2 AND ModeType = (if EnableSpecials fl then newMode else m0) AND ModeType"
    by (simp add: m2_def m1_def type_bits_kept type_bits_of_mix)
  have bitsP: "m2 AND ModePerm = (if EnablePerms fl then newMode else m0) AND ModePerm"
    by (simp add: m2_def m1_def perm_bits_kept perm_bits_of_mix)
  have acc: "fst (setFileMode lib newMode inode) = Inr (m0 \<noteq> m2)
      \<and> Mode (Attributes (snd (setFileMode lib newMode inode))) = m2
      \<and> userMetadataDirty (snd (setFileMode lib newMode inode)) = 2
      \<and> (\<exists>um. userMetadata (snd (setFileMode lib newMode inode)) = Some um
          \<and> um (FileModeAttr fl) =
              (if m2 = (if dir inode \<noteq> None then DirMode fl OR ModeDir else FileMode fl)
               then None else Some (decimal (unat (ConvertGolangMode lib m2)))))"
    if "\<not> rejected"
    using that setFileMode_accept [of inode newMode lib]
    unfolding rejected_def fl_def m0_def m2_def m1_def by blast
  show ?thesis
    unfolding Let_def fl_def [symmetric] m0_def [symmetric] rejected_def [symmetric]
  proof (intro conjI impI)
    assume rejected
    then show "fst (setFileMode lib newMode inode) =
        Inl (if (newMode AND ModeDir) \<noteq> 0 then ENOTDIR else EISDIR)"
      and "snd (setFileMode lib newMode inode) = inode"
      by (simp_all add: rej)
  next
    assume n: "\<not> rejected"
    have m: "Mode (Attributes (snd (setFileMode lib newMode inode))) = m2"
      using acc [OF n] by simp
    show "fst (setFileMode lib newMode inode) =
        Inr (m0 \<noteq> Mode (Attributes (snd (setFileMode lib newMode inode))))"
      using acc [OF n] by simp
    show "Mode (Attributes (snd (setFileMode lib newMode inode))) =
        (if EnablePerms fl
         then ((if EnableSpecials fl then (m0 AND ModePerm) OR (newMode AND ModeType) else m0)
                 AND ModeType) OR (newMode AND ModePerm)
         else if EnableSpecials fl then (m0 AND ModePerm) OR (newMode AND ModeType) else m0)"
      unfolding m by (simp add: m2_def m1_def)
    show "Mode (Attributes (snd (setFileMode lib newMode inode))) AND ModeType =
        (if EnableSpecials fl then newMode else m0) AND ModeType"
      unfolding m by (rule bitsT)
    show "Mode (Attributes (snd (setFileMode lib newMode inode))) AND ModePerm =
        (if EnablePerms fl then newMode else m0) AND ModePerm"
      unfolding m by (rule bitsP)
    show "\<exists>um. userMetadata (snd (setFileMode lib newMode inode)) = Some um \<and>
        um (FileModeAttr fl) =
          (if Mode (Attributes (snd (setFileMode lib newMode inode))) =
              (if dir inode \<noteq> None then DirMode fl OR ModeDir else FileMode fl)
           then None
           else Some (decimal (unat (ConvertGolangMode lib
                  (Mode (Attributes (snd (setFileMode lib newMode inode))))))))"
      unfolding m using acc [OF n] by blast
    show "userMetadataDirty (snd (setFileMode lib newMode inode)) = 2"
      using acc [OF n] by simp
  qed
qed

lemma decimal_493: "decimal 493 = ''493''"
  by code_simp

lemma mode_bits_examples:
  "(493 :: 32 word) AND ModeDir = 0" "(420 :: 32 word) AND ModeDir = 0"
  "(ModeDir OR 493) AND ModeDir = ModeDir" "ModeDir \<noteq> 0"
  "(420 :: 32 word) AND ModePerm = 420" "(493 :: 32 word) AND ModePerm = 493"
  "(493 :: 32 word) AND ModeType = 0" "(420 :: 32 word) AND ModeType = 0"
  "(ModeDir OR 493) AND ModePerm = 493" "(ModeDir OR 493) AND ModeType = ModeDir"
  by (simp_all add: ModePerm_def ModeType_def ModeDir_def ModeSymlink_def ModeNamedPipe_def
      ModeSocket_def ModeDevice_def ModeCharDevice_def ModeIrregular_def)


lemma example_inode_fields:
  "flags (fs example_inode) = example_flags"
  "Mode (Attributes example_inode) = 420"
  "dir example_inode = None"
  by (simp_all add: example_inode_def example_fs_def)

lemma example_flags_fields:
  "EnableSpecials example_flags" "EnablePerms example_flags" "EnableMtime example_flags"
  "FileMode example_flags = 420" "DirMode example_flags = 493"
  "FileModeAttr example_flags = ''mode''" "SymlinkAttr example_flags = ''--symlink-target''"
  by (simp_all add: example_flags_def)

lemma example_lib_fields:
  "ConvertGolangMode example_lib m = m" "ConvertFileMode example_lib m = m"
  by (simp_all add: example_lib_def)

theorem setFileMode_behaviour_witness:
  "fst (setFileMode example_lib 493 example_inode) = Inr True
   \<and> Mode (Attributes (snd (setFileMode example_lib 493 example_inode))) = 493
   \<and> (\<exists>um. userMetadata (snd (setFileMode example_lib 493 example_inode)) = Some um
         \<and> um ''mode'' = Some ''493'')
   \<and> setFileMode example_lib (ModeDir OR 493) example_inode = (Inl ENOTDIR, example_inode)"
proof -
  have a: "fst (setFileMode example_lib 493 example_inode) = Inr True
      \<and> Mode (Attributes (snd (setFileMode example_lib 493 example_inode))) = 493
      \<and> (\<exists>um. userMetadata (snd (setFileMode example_lib 493 example_inode)) = Some um
            \<and> um ''mode'' = Some ''493'')"
    using setFileMode_behaviour
      [where inode = example_inode and newMode = 493 and lib = example_lib]
    by (auto simp add: Let_def example_inode_fields example_flags_fields example_lib_fields
        mode_bits_examples decimal_493)
  have b: "setFileMode example_lib (ModeDir OR 493) example_inode = (Inl ENOTDIR, example_inode)"
    using setFileMode_behaviour
      [where inode = example_inode and newMode = "ModeDir OR 493" and lib = example_lib]
    by (auto simp add: Let_def example_inode_fields example_flags_fields example_lib_fields
        mode_bits_examples prod_eq_iff)
  from a b show ?thesis by blast
qed

text \<open>
  Against C8 as stated: with the special-files option off, a regular file (mode 0644) is
  given a new mode with the directory bit and 0755. The type of the new mode disagrees
  with the type of the file, yet nothing is rejected: the call reports a change and the
  mode is 0755 with the type bits as before.
\<close>

theorem setFileMode_specials_off_counterexample:
  "\<not> EnableSpecials (flags (fs example_inode_no_specials))
   \<and> Mode (Attributes example_inode_no_specials) AND ModeType = 0
   \<and> (ModeDir OR 493) AND ModeType = ModeDir
   \<and> ModeDir \<noteq> 0
   \<and> fst (setFileMode example_lib (ModeDir OR 493) example_inode_no_specials) = Inr True
   \<and> Mode (Attributes (snd (setFileMode example_lib (ModeDir OR 493) example_inode_no_specials)))
        = 493"
proof -
  have f: "flags (fs example_inode_no_specials) = example_flags\<lparr>EnableSpecials := False\<rparr>"
    "Mode (Attributes example_inode_no_specials) = 420"
    by (simp_all add: example_inode_no_specials_def example_inode_def)
  have ok: "\<not> (EnableSpecials (flags (fs example_inode_no_specials))
      \<and> ((ModeDir OR 493) AND ModeDir) \<noteq> (Mode (Attributes example_inode_no_specials) AND ModeDir))"
    by (simp add: f)
  show ?thesis
    using setFileMode_accept(1,2) [OF ok, of example_lib]
    by (auto simp add: f example_flags_fields mode_bits_examples)
qed

subsection \<open>Extended attributes\<close>

lemma fillXattrFromHead_fields:
  "CacheState (fillXattrFromHead lib resp inode) = CacheState inode"
  "userMetadataDirty (fillXattrFromHead lib resp inode) = userMetadataDirty inode"
  "fs (fillXattrFromHead lib resp inode) = fs inode"
  by (simp_all add: fillXattrFromHead_def Let_def setMetadata_fields split: option.split)

lemma fillXattr_fields:
  "CacheState (snd (fillXattr lib head inode)) = CacheState inode"
  "userMetadataDirty (snd (fillXattr lib head inode)) = userMetadataDirty inode"
  by (simp_all add: fillXattr_def Let_def fillXattrFromHead_fields record_call_def isDir_def
      split: option.split sum.split)

lemma getXattrMap_backend:
  "fst (cloud inode) = Some c \<Longrightarrow> prefix (capName c @ ''.'') name \<Longrightarrow>
   getXattrMap lib head name userOnly inode =
     (if userOnly then (Inl EPERM, inode)
      else (Inr (S3Metadata, drop (length (capName c @ ''.'')) name), inode))"
  by (simp add: getXattrMap_def Let_def)

lemma getXattrMap_other:
  "fst (cloud inode) = Some c \<Longrightarrow> \<not> prefix (capName c @ ''.'') name \<Longrightarrow>
   \<not> (prefix ''user.'' name \<and> name \<noteq> ''user.'' @ SymlinkAttr (flags (fs inode))) \<Longrightarrow>
   getXattrMap lib head name userOnly inode =
     (if userOnly then (Inl EPERM, inode) else (Inl ENOSYS, inode))"
  by (auto simp add: getXattrMap_def Let_def)

lemma getXattrMap_user_only:
  assumes "getXattrMap lib head name True inode = (Inr (sel, key), inode1)"
  shows "sel = UserMetadata" and "userMetadata inode1 \<noteq> None"
    and "CacheState inode1 = CacheState inode"
    and "userMetadataDirty inode1 = userMetadataDirty inode"
proof -
  obtain e i where f: "fillXattr lib head inode = (e, i)"
    by (cases "fillXattr lib head inode")
  have i: "CacheState i = CacheState inode" "userMetadataDirty i = userMetadataDirty inode"
    using fillXattr_fields [of lib head inode] by (simp_all add: f)
  have "sel = UserMetadata \<and> userMetadata inode1 \<noteq> None \<and> inode1 = i"
    using assms
    by (auto simp add: getXattrMap_def Let_def f split: option.splits if_splits)
  then show "sel = UserMetadata" and "userMetadata inode1 \<noteq> None"
    and "CacheState inode1 = CacheState inode"
    and "userMetadataDirty inode1 = userMetadataDirty inode"
    using i by auto
qed

lemma example_cloud: "fst (cloud example_inode) = Some (OtherBackend ''s3'')"
  by (simp add: cloud_def example_inode_def example_root_def isErr_def)

text \<open>
  C7. For an inode that has a backend \<open>c\<close>: a name that starts with the backend's name
  and a dot is refused with EPERM in user-only mode and otherwise resolves to
  \<open>s3Metadata\<close>, with the prefix cut off; a name that starts neither with that prefix nor
  with \<open>user.\<close> is refused with EPERM in user-only mode and with ENOSYS otherwise. So, when
  the backend is not called \<open>security\<close>, GetXattr of \<open>security.capability\<close> returns ENOSYS
  and SetXattr of it, with flags 0, returns EPERM; both leave the inode as it was.
\<close>

theorem getXattrMap_namespaces:
  assumes "fst (cloud inode) = Some c"
  shows "(prefix (capName c @ ''.'') name \<longrightarrow>
            getXattrMap lib head name True inode = (Inl EPERM, inode)
          \<and> getXattrMap lib head name False inode =
              (Inr (S3Metadata, drop (length (capName c) + 1) name), inode))
       \<and> (\<not> prefix (capName c @ ''.'') name \<and> \<not> prefix ''user.'' name \<longrightarrow>
            getXattrMap lib head name True inode = (Inl EPERM, inode)
          \<and> getXattrMap lib head name False inode = (Inl ENOSYS, inode))
       \<and> (\<not> prefix (capName c @ ''.'') ''security.capability'' \<longrightarrow>
            GetXattr lib head ''security.capability'' inode = (Inl ENOSYS, inode)
          \<and> SetXattr lib head ''security.capability'' v 0 inode = (Some EPERM, inode))"
proof (intro conjI impI)
  assume p: "prefix (capName c @ ''.'') name"
  show "getXattrMap lib head name True inode = (Inl EPERM, inode)"
    using getXattrMap_backend [OF assms p, of lib head True] by simp
  show "getXattrMap lib head name False inode =
      (Inr (S3Metadata, drop (length (capName c) + 1) name), inode)"
    using getXattrMap_backend [OF assms p, of lib head False] by simp
next
  assume n: "\<not> prefix (capName c @ ''.'') name \<and> \<not> prefix ''user.'' name"
  then have a: "\<not> prefix (capName c @ ''.'') name"
    and b: "\<not> (prefix ''user.'' name \<and> name \<noteq> ''user.'' @ SymlinkAttr (flags (fs inode)))"
    by simp_all
  show "getXattrMap lib head name True inode = (Inl EPERM, inode)"
    using getXattrMap_other [OF assms a b, of lib head True] by simp
  show "getXattrMap lib head name False inode = (Inl ENOSYS, inode)"
    using getXattrMap_other [OF assms a b, of lib head False] by simp
next
  assume a: "\<not> prefix (capName c @ ''.'') ''security.capability''"
  have b: "\<not> (prefix ''user.'' ''security.capability''
      \<and> ''security.capability'' \<noteq> ''user.'' @ SymlinkAttr (flags (fs inode)))"
    by simp
  show "GetXattr lib head ''security.capability'' inode = (Inl ENOSYS, inode)"
    using getXattrMap_other [OF assms a b, of lib head False] by (simp add: GetXattr_def)
  show "SetXattr lib head ''security.capability'' v 0 inode = (Some EPERM, inode)"
    using getXattrMap_other [OF assms a b, of lib head True] by (simp add: SetXattr_def)
qed

theorem getXattrMap_namespaces_witness:
  "getXattrMap example_lib (Inl ENOENT) ''s3.etag'' True example_inode = (Inl EPERM, example_inode)
   \<and> getXattrMap example_lib (Inl ENOENT) ''s3.etag'' False example_inode =
       (Inr (S3Metadata, ''etag''), example_inode)
   \<and> getXattrMap example_lib (Inl ENOENT) ''trusted.x'' True example_inode =
       (Inl EPERM, example_inode)
   \<and> getXattrMap example_lib (Inl ENOENT) ''trusted.x'' False example_inode =
       (Inl ENOSYS, example_inode)
   \<and> GetXattr example_lib (Inl ENOENT) ''security.capability'' example_inode =
       (Inl ENOSYS, example_inode)
   \<and> SetXattr example_lib (Inl ENOENT) ''security.capability'' ''v'' 0 example_inode =
       (Some EPERM, example_inode)"
  using getXattrMap_namespaces [OF example_cloud, of "''s3.etag''" example_lib "Inl ENOENT" "''v''"]
    getXattrMap_namespaces [OF example_cloud, of "''trusted.x''" example_lib "Inl ENOENT" "''v''"]
  by simp

lemma mark_modified_fields:
  "userMetadata (WakeupFlusher (SetCacheState st inode)) = userMetadata inode"
  "userMetadataDirty (WakeupFlusher (SetCacheState st inode)) = userMetadataDirty inode"
  "CacheState (WakeupFlusher (SetCacheState st inode)) = st"
  "calls (fs (WakeupFlusher (SetCacheState st inode))) =
     calls (fs inode) @ [Call_SetCacheState st, Call_WakeupFlusher]"
  by (simp_all add: WakeupFlusher_def SetCacheState_def record_call_def)

lemma SetXattr_resolved:
  assumes "getXattrMap lib head name True inode = (Inr (sel, key), inode1)"
  shows "\<exists>um. userMetadata inode1 = Some um
     \<and> (flgs = XATTR_CREATE \<and> um key \<noteq> None \<longrightarrow>
          SetXattr lib head name val flgs inode = (Some EEXIST, inode1))
     \<and> (flgs = XATTR_REPLACE \<and> um key = None \<longrightarrow>
          SetXattr lib head name val flgs inode = (Some ENODATA, inode1))
     \<and> (\<not> (flgs = XATTR_CREATE \<and> um key \<noteq> None)
          \<and> \<not> (flgs = XATTR_REPLACE \<and> um key = None) \<longrightarrow>
          fst (SetXattr lib head name val flgs inode) = None
        \<and> userMetadata (snd (SetXattr lib head name val flgs inode)) = Some (um(key \<mapsto> val))
        \<and> userMetadataDirty (snd (SetXattr lib head name val flgs inode)) = 2
        \<and> CacheState (snd (SetXattr lib head name val flgs inode)) =
            (if CacheState inode = ST_CACHED then ST_MODIFIED else CacheState inode)
        \<and> calls (fs (snd (SetXattr lib head name val flgs inode))) =
            calls (fs inode1)
              @ (if CacheState inode = ST_CACHED
                 then [Call_SetCacheState ST_MODIFIED, Call_WakeupFlusher] else []))"
proof -
  have sel: "sel = UserMetadata" and cs: "CacheState inode1 = CacheState inode"
    using getXattrMap_user_only [OF assms] by simp_all
  obtain um where um: "userMetadata inode1 = Some um"
    using getXattrMap_user_only(2) [OF assms] by blast
  have c: "XATTR_CREATE \<noteq> (0 :: 32 word)" "XATTR_REPLACE \<noteq> (0 :: 32 word)"
    "XATTR_REPLACE \<noteq> XATTR_CREATE"
    by (simp_all add: XATTR_CREATE_def XATTR_REPLACE_def)
  have exist: "SetXattr lib head name val flgs inode = (Some EEXIST, inode1)"
    if "flgs = XATTR_CREATE \<and> um key \<noteq> None"
    using that c by (simp add: SetXattr_def assms sel meta_of_def um Let_def)
  have nodata: "SetXattr lib head name val flgs inode = (Some ENODATA, inode1)"
    if "flgs = XATTR_REPLACE \<and> um key = None"
    using that c by (simp add: SetXattr_def assms sel meta_of_def um Let_def)
  have ok: "fst (SetXattr lib head name val flgs inode) = None
      \<and> userMetadata (snd (SetXattr lib head name val flgs inode)) = Some (um(key \<mapsto> val))
      \<and> userMetadataDirty (snd (SetXattr lib head name val flgs inode)) = 2
      \<and> CacheState (snd (SetXattr lib head name val flgs inode)) =
          (if CacheState inode = ST_CACHED then ST_MODIFIED else CacheState inode)
      \<and> calls (fs (snd (SetXattr lib head name val flgs inode))) =
          calls (fs inode1)
            @ (if CacheState inode = ST_CACHED
               then [Call_SetCacheState ST_MODIFIED, Call_WakeupFlusher] else [])"
    if "\<not> (flgs = XATTR_CREATE \<and> um key \<noteq> None)"
      "\<not> (flgs = XATTR_REPLACE \<and> um key = None)"
  proof -
    define i2 where "i2 = (meta_update UserMetadata (um(key \<mapsto> Dup val)) inode1)
        \<lparr>userMetadataDirty := 2\<rparr>"
    have i2: "userMetadata i2 = Some (um(key \<mapsto> val))" "userMetadataDirty i2 = 2"
      "CacheState i2 = CacheState inode" "fs i2 = fs inode1"
      by (simp_all add: i2_def meta_update_def Dup_def cs)
    have r: "SetXattr lib head name val flgs inode =
        (None, if CacheState i2 = ST_CACHED
               then WakeupFlusher (SetCacheState ST_MODIFIED i2) else i2)"
      using that
      by (auto simp add: SetXattr_def assms sel meta_of_def um Let_def i2_def)
    show ?thesis
      unfolding r by (simp add: i2 mark_modified_fields)
  qed
  from um exist nodata ok show ?thesis by blast
qed

text \<open>
  C5, as the code has it. SetXattr first resolves the name in user-only mode and returns
  the error of that step, whatever the flags. Let the name resolve to a map and a key (then
  the map is the user metadata, filled from the backend if it was not loaded). SetXattr
  with XATTR_CREATE on a key that is present returns EEXIST, with XATTR_REPLACE on a key
  that is absent it returns ENODATA, and neither writes anything. In every other case it
  returns no error, stores the value bytes under the key, sets \<open>userMetadataDirty\<close> to 2
  and, if the cache state was CACHED, sets it to MODIFIED and then wakes the flusher.
\<close>

theorem SetXattr_flags_and_effects:
  "(\<forall>err inode1. getXattrMap lib head name True inode = (Inl err, inode1) \<longrightarrow>
      SetXattr lib head name val flgs inode = (Some err, inode1))
   \<and> (\<forall>sel key inode1. getXattrMap lib head name True inode = (Inr (sel, key), inode1) \<longrightarrow>
      (\<exists>um. userMetadata inode1 = Some um
         \<and> (flgs = XATTR_CREATE \<and> um key \<noteq> None \<longrightarrow>
              SetXattr lib head name val flgs inode = (Some EEXIST, inode1))
         \<and> (flgs = XATTR_REPLACE \<and> um key = None \<longrightarrow>
              SetXattr lib head name val flgs inode = (Some ENODATA, inode1))
         \<and> (\<not> (flgs = XATTR_CREATE \<and> um key \<noteq> None)
              \<and> \<not> (flgs = XATTR_REPLACE \<and> um key = None) \<longrightarrow>
              fst (SetXattr lib head name val flgs inode) = None
            \<and> userMetadata (snd (SetXattr lib head name val flgs inode)) = Some (um(key \<mapsto> val))
            \<and> userMetadataDirty (snd (SetXattr lib head name val flgs inode)) = 2
            \<and> CacheState (snd (SetXattr lib head name val flgs inode)) =
                (if CacheState inode = ST_CACHED then ST_MODIFIED else CacheState inode)
            \<and> calls (fs (snd (SetXattr lib head name val flgs inode))) =
                calls (fs inode1)
                  @ (if CacheState inode = ST_CACHED
                     then [Call_SetCacheState ST_MODIFIED, Call_WakeupFlusher] else []))))"
proof (intro conjI allI impI)
  fix err inode1
  assume "getXattrMap lib head name True inode = (Inl err, inode1)"
  then show "SetXattr lib head name val flgs inode = (Some err, inode1)"
    by (simp add: SetXattr_def)
next
  fix sel key inode1
  assume "getXattrMap lib head name True inode = (Inr (sel, key), inode1)"
  then show "\<exists>um. userMetadata inode1 = Some um
         \<and> (flgs = XATTR_CREATE \<and> um key \<noteq> None \<longrightarrow>
              SetXattr lib head name val flgs inode = (Some EEXIST, inode1))
         \<and> (flgs = XATTR_REPLACE \<and> um key = None \<longrightarrow>
              SetXattr lib head name val flgs inode = (Some ENODATA, inode1))
         \<and> (\<not> (flgs = XATTR_CREATE \<and> um key \<noteq> None)
              \<and> \<not> (flgs = XATTR_REPLACE \<and> um key = None) \<longrightarrow>
              fst (SetXattr lib head name val flgs inode) = None
            \<and> userMetadata (snd (SetXattr lib head name val flgs inode)) = Some (um(key \<mapsto> val))
            \<and> userMetadataDirty (snd (SetXattr lib head name val flgs inode)) = 2
            \<and> CacheState (snd (SetXattr lib head name val flgs inode)) =
                (if CacheState inode = ST_CACHED then ST_MODIFIED else CacheState inode)
            \<and> calls (fs (snd (SetXattr lib head name val flgs inode))) =
                calls (fs inode1)
                  @ (if CacheState inode = ST_CACHED
                     then [Call_SetCacheState ST_MODIFIED, Call_WakeupFlusher] else []))"
    by (rule SetXattr_resolved)
qed

lemma example_user_names:
  "getXattrMap example_lib (Inl ENOENT) ''user.foo'' True example_inode =
     (Inr (UserMetadata, ''foo''), example_inode)"
  "getXattrMap example_lib (Inl ENOENT) ''user.new'' True example_inode =
     (Inr (UserMetadata, ''new''), example_inode)"
  "getXattrMap example_lib (Inl ENOENT) ''user.new'' True (example_inode\<lparr>CacheState := ST_CACHED\<rparr>) =
     (Inr (UserMetadata, ''new''), example_inode\<lparr>CacheState := ST_CACHED\<rparr>)"
  "getXattrMap example_lib (Inl ENOENT) ''user.foo'' True (example_inode\<lparr>CacheState := ST_CACHED\<rparr>) =
     (Inr (UserMetadata, ''foo''), example_inode\<lparr>CacheState := ST_CACHED\<rparr>)"
  "getXattrMap example_lib (Inl ENOENT) ''s3.etag'' True example_inode = (Inl EPERM, example_inode)"
  by (simp_all add: getXattrMap_def fillXattr_def Let_def cloud_def example_inode_def
      example_root_def example_fs_def example_flags_def isErr_def)

lemma example_inode_state:
  "userMetadata example_inode = Some [''foo'' \<mapsto> ''bar'']"
  "userMetadata (example_inode\<lparr>CacheState := ST_CACHED\<rparr>) = Some [''foo'' \<mapsto> ''bar'']"
  "CacheState example_inode = ST_MODIFIED"
  "userMetadataDirty example_inode = 2"
  "calls (fs example_inode) = []"
  "ST_MODIFIED \<noteq> ST_CACHED"
  by (simp_all add: example_inode_def example_fs_def ST_MODIFIED_def ST_CACHED_def)

theorem SetXattr_flags_and_effects_witness:
  "SetXattr example_lib (Inl ENOENT) ''user.foo'' ''v'' XATTR_CREATE example_inode =
     (Some EEXIST, example_inode)
   \<and> SetXattr example_lib (Inl ENOENT) ''user.new'' ''v'' XATTR_REPLACE example_inode =
     (Some ENODATA, example_inode)
   \<and> SetXattr example_lib (Inl ENOENT) ''s3.etag'' ''v'' XATTR_REPLACE example_inode =
     (Some EPERM, example_inode)
   \<and> fst (SetXattr example_lib (Inl ENOENT) ''user.new'' ''v'' 0
        (example_inode\<lparr>CacheState := ST_CACHED\<rparr>)) = None
   \<and> userMetadata (snd (SetXattr example_lib (Inl ENOENT) ''user.new'' ''v'' 0
        (example_inode\<lparr>CacheState := ST_CACHED\<rparr>))) = Some [''foo'' \<mapsto> ''bar'', ''new'' \<mapsto> ''v'']
   \<and> userMetadataDirty (snd (SetXattr example_lib (Inl ENOENT) ''user.new'' ''v'' 0
        (example_inode\<lparr>CacheState := ST_CACHED\<rparr>))) = 2
   \<and> CacheState (snd (SetXattr example_lib (Inl ENOENT) ''user.new'' ''v'' 0
        (example_inode\<lparr>CacheState := ST_CACHED\<rparr>))) = ST_MODIFIED
   \<and> calls (fs (snd (SetXattr example_lib (Inl ENOENT) ''user.new'' ''v'' 0
        (example_inode\<lparr>CacheState := ST_CACHED\<rparr>)))) =
       [Call_SetCacheState ST_MODIFIED, Call_WakeupFlusher]"
  using SetXattr_flags_and_effects
      [where lib = example_lib and head = "Inl ENOENT" and name = "''user.foo''"
         and inode = example_inode and val = "''v''" and flgs = XATTR_CREATE]
    SetXattr_flags_and_effects
      [where lib = example_lib and head = "Inl ENOENT" and name = "''user.new''"
         and inode = example_inode and val = "''v''" and flgs = XATTR_REPLACE]
    SetXattr_flags_and_effects
      [where lib = example_lib and head = "Inl ENOENT" and name = "''s3.etag''"
         and inode = example_inode and val = "''v''" and flgs = XATTR_REPLACE]
    SetXattr_flags_and_effects
      [where lib = example_lib and head = "Inl ENOENT" and name = "''user.new''"
         and inode = "example_inode\<lparr>CacheState := ST_CACHED\<rparr>" and val = "''v''" and flgs = 0]
  unfolding example_user_names
  by (auto simp add: example_inode_state XATTR_CREATE_def XATTR_REPLACE_def)

text \<open>
  Against C5 as stated: on an implicit directory whose user metadata is not loaded,
  \<^verbatim>\<open>fillXattr\<close> sends no request and the map stays nil, so the name \<open>user.foo\<close>
  does not resolve. SetXattr with XATTR_REPLACE on this key, which is absent, returns
  ENOSYS and not ENODATA; with no flag it returns ENOSYS as well and stores nothing.
\<close>

theorem SetXattr_unresolved_counterexample:
  "ImplicitDir example_implicit_dir
   \<and> userMetadata example_implicit_dir = None
   \<and> SetXattr example_lib (Inl ENOENT) ''user.foo'' ''v'' XATTR_REPLACE example_implicit_dir =
       (Some ENOSYS, example_implicit_dir)
   \<and> SetXattr example_lib (Inl ENOENT) ''user.foo'' ''v'' 0 example_implicit_dir =
       (Some ENOSYS, example_implicit_dir)"
  by (simp add: SetXattr_def getXattrMap_def fillXattr_def Let_def cloud_def
      example_implicit_dir_def example_inode_def example_root_def example_fs_def
      example_flags_def isErr_def)

text \<open>
  C6. Let the name resolve, in user-only mode, to a map and a key. RemoveXattr of a key
  that is absent returns ENODATA and leaves \<open>userMetadataDirty\<close> and the cache state as
  they were before the call. RemoveXattr of a key that is present returns no error,
  deletes the entry, sets \<open>userMetadataDirty\<close> to 2 and, if the cache state was CACHED,
  sets it to MODIFIED and then wakes the flusher.
\<close>

theorem RemoveXattr_absent_and_present:
  assumes "getXattrMap lib head name True inode = (Inr (sel, key), inode1)"
  shows "\<exists>um. userMetadata inode1 = Some um
     \<and> (um key = None \<longrightarrow>
          RemoveXattr lib head name inode = (Some ENODATA, inode1)
        \<and> userMetadataDirty (snd (RemoveXattr lib head name inode)) = userMetadataDirty inode
        \<and> CacheState (snd (RemoveXattr lib head name inode)) = CacheState inode)
     \<and> (um key \<noteq> None \<longrightarrow>
          fst (RemoveXattr lib head name inode) = None
        \<and> userMetadata (snd (RemoveXattr lib head name inode)) = Some (um(key := None))
        \<and> userMetadataDirty (snd (RemoveXattr lib head name inode)) = 2
        \<and> CacheState (snd (RemoveXattr lib head name inode)) =
            (if CacheState inode = ST_CACHED then ST_MODIFIED else CacheState inode)
        \<and> calls (fs (snd (RemoveXattr lib head name inode))) =
            calls (fs inode1)
              @ (if CacheState inode = ST_CACHED
                 then [Call_SetCacheState ST_MODIFIED, Call_WakeupFlusher] else []))"
proof -
  have sel: "sel = UserMetadata" and cs: "CacheState inode1 = CacheState inode"
    and d: "userMetadataDirty inode1 = userMetadataDirty inode"
    using getXattrMap_user_only [OF assms] by simp_all
  obtain um where um: "userMetadata inode1 = Some um"
    using getXattrMap_user_only(2) [OF assms] by blast
  have absent: "RemoveXattr lib head name inode = (Some ENODATA, inode1)" if "um key = None"
    using that by (simp add: RemoveXattr_def assms sel meta_of_def um)
  have present: "fst (RemoveXattr lib head name inode) = None
      \<and> userMetadata (snd (RemoveXattr lib head name inode)) = Some (um(key := None))
      \<and> userMetadataDirty (snd (RemoveXattr lib head name inode)) = 2
      \<and> CacheState (snd (RemoveXattr lib head name inode)) =
          (if CacheState inode = ST_CACHED then ST_MODIFIED else CacheState inode)
      \<and> calls (fs (snd (RemoveXattr lib head name inode))) =
          calls (fs inode1)
            @ (if CacheState inode = ST_CACHED
               then [Call_SetCacheState ST_MODIFIED, Call_WakeupFlusher] else [])"
    if "um key \<noteq> None"
  proof -
    define i2 where "i2 = (meta_update UserMetadata (um(key := None)) inode1)
        \<lparr>userMetadataDirty := 2\<rparr>"
    have i2: "userMetadata i2 = Some (um(key := None))" "userMetadataDirty i2 = 2"
      "CacheState i2 = CacheState inode" "fs i2 = fs inode1"
      by (simp_all add: i2_def meta_update_def cs)
    have r: "RemoveXattr lib head name inode =
        (None, if CacheState i2 = ST_CACHED
               then WakeupFlusher (SetCacheState ST_MODIFIED i2) else i2)"
      using that
      by (auto simp add: RemoveXattr_def assms sel meta_of_def um Let_def i2_def)
    show ?thesis
      unfolding r by (simp add: i2 mark_modified_fields)
  qed
  from um absent present cs d show ?thesis by auto
qed

theorem RemoveXattr_absent_and_present_witness:
  "RemoveXattr example_lib (Inl ENOENT) ''user.new'' example_inode = (Some ENODATA, example_inode)
   \<and> fst (RemoveXattr example_lib (Inl ENOENT) ''user.foo''
        (example_inode\<lparr>CacheState := ST_CACHED\<rparr>)) = None
   \<and> userMetadata (snd (RemoveXattr example_lib (Inl ENOENT) ''user.foo''
        (example_inode\<lparr>CacheState := ST_CACHED\<rparr>))) = Some Map.empty
   \<and> userMetadataDirty (snd (RemoveXattr example_lib (Inl ENOENT) ''user.foo''
        (example_inode\<lparr>CacheState := ST_CACHED\<rparr>))) = 2
   \<and> CacheState (snd (RemoveXattr example_lib (Inl ENOENT) ''user.foo''
        (example_inode\<lparr>CacheState := ST_CACHED\<rparr>))) = ST_MODIFIED
   \<and> calls (fs (snd (RemoveXattr example_lib (Inl ENOENT) ''user.foo''
        (example_inode\<lparr>CacheState := ST_CACHED\<rparr>)))) =
       [Call_SetCacheState ST_MODIFIED, Call_WakeupFlusher]"
  using RemoveXattr_absent_and_present [OF example_user_names(2)]
    RemoveXattr_absent_and_present [OF example_user_names(4)]
  by (auto simp add: example_inode_state)

subsection \<open>The escape codec\<close>

















subsection \<open>Maps built by a loop\<close>










subsection \<open>Round trips of the metadata codec\<close>








end
